theory Spec2Isabelle
  imports Complex_Main
begin

section \<open>Wind shadow test (SimpleGameCanvas.tsx, isInTurbulenceZone)\<close>

text \<open>
  JavaScript numbers are modelled as real numbers: rounding, infinities and NaN are
  outside the model.  A position \<open>{x, y}\<close> is a record.
\<close>

record Pos =
  posX :: real
  posY :: real

text \<open>
  \<open>singleBoatMode\<close> is a variable of the enclosing component; it is passed explicitly.
  The division \<open>distance / shadowLength\<close> is only reached when
  \<open>0 < distance \<le> shadowLength\<close>, so it never divides by zero.
\<close>

definition isInTurbulenceZone :: "bool \<Rightarrow> Pos \<Rightarrow> Pos \<Rightarrow> real \<Rightarrow> real \<Rightarrow> bool" where
  "isInTurbulenceZone singleBoatMode boatPos blockingBoatPos blockingBoatRotation shadowLength =
     (if singleBoatMode then False
      else if posY boatPos \<le> posY blockingBoatPos then False
      else
        let distance = sqrt ((posX boatPos - posX blockingBoatPos)\<^sup>2
                           + (posY boatPos - posY blockingBoatPos)\<^sup>2)
        in if distance > shadowLength then False
           else
             let shadowWidth = shadowLength * 0.5;
                 widthAtDistance = (distance / shadowLength) * shadowWidth
             in \<bar>posX boatPos - posX blockingBoatPos\<bar> < widthAtDistance)"

section \<open>Race store (useRace.tsx)\<close>

datatype RacePhase = PreStart | Starting | Racing | PhaseFinished

datatype RaceStage =
  NotStarted | StartLeg | UpwindLeg | DownwindLeg | SecondUpwindLeg | FinishLeg | Finished

datatype Tack = Port | Starboard

datatype MarkType = Top | Bottom

record Boat =
  boatId :: string
  userId :: int
  username :: string
  position :: Pos
  rotation :: real
  tack :: Tack
  speed :: real
  sailPosition :: real
  lastCheckpoint :: int
  isLocalPlayer :: bool

text \<open>
  \<open>boatNumber\<close> is an optional number field that can also hold NaN; both \<open>undefined\<close> and
  NaN are \<open>None\<close>, and \<open>===\<close> on such a value is false (see \<open>numStrictEq\<close>).
\<close>

record RaceResult =
  resultUserId :: int
  resultUsername :: string
  finishTime :: real
  resultPosition :: nat
  boatNumber :: "int option"

record Line =
  lineX1 :: real
  lineY1 :: real
  lineX2 :: real
  lineY2 :: real

record Mark =
  markPos :: Pos
  markType :: MarkType

record RaceState =
  phase :: RacePhase
  startTime :: "real option"
  timeRemaining :: real
  raceTime :: real
  boats :: "Boat list"
  results :: "RaceResult list"
  boat1Stage :: RaceStage
  boat2Stage :: RaceStage
  boat3Stage :: RaceStage
  boat4Stage :: RaceStage
  startLine :: Line
  marks :: "Mark list"
  localBoat :: "Boat option"

subsection \<open>Strings: split, parseInt, trim, number formatting\<close>

fun splitOn :: "char \<Rightarrow> string \<Rightarrow> string list" where
  "splitOn c [] = [[]]"
| "splitOn c (x # xs) =
     (if x = c then [] # splitOn c xs
      else (case splitOn c xs of w # ws \<Rightarrow> (x # w) # ws | [] \<Rightarrow> [[x]]))"

definition nthOpt :: "'a list \<Rightarrow> nat \<Rightarrow> 'a option" where
  "nthOpt xs i = (if i < length xs then Some (xs ! i) else None)"

definition isWhiteSpace :: "char \<Rightarrow> bool" where
  "isWhiteSpace c = ((of_char c :: nat) \<in> {9, 10, 11, 12, 13, 32})"

definition isDigit :: "char \<Rightarrow> bool" where
  "isDigit c = (48 \<le> (of_char c :: nat) \<and> (of_char c :: nat) \<le> 57)"

definition hexValue :: "char \<Rightarrow> nat option" where
  "hexValue c =
     (let n = (of_char c :: nat) in
      if 48 \<le> n \<and> n \<le> 57 then Some (n - 48)
      else if 97 \<le> n \<and> n \<le> 102 then Some (n - 87)
      else if 65 \<le> n \<and> n \<le> 70 then Some (n - 55)
      else None)"

definition digitsValue :: "nat \<Rightarrow> nat list \<Rightarrow> nat" where
  "digitsValue radix ds = foldl (\<lambda>acc d. radix * acc + d) 0 ds"

text \<open>
  \<open>parseInt\<close> with no radix argument: leading white space (ASCII only here), an optional
  sign, a \<open>0x\<close> prefix for hexadecimal, then the longest run of digits; NaN (\<open>None\<close>)
  when there is no digit.  An \<open>undefined\<close> argument (\<open>None\<close>) gives NaN.
\<close>

definition parseInt :: "string option \<Rightarrow> int option" where
  "parseInt arg =
     (case arg of
        None \<Rightarrow> None
      | Some str \<Rightarrow>
          let s0 = dropWhile isWhiteSpace str;
              negative = (s0 \<noteq> [] \<and> hd s0 = CHR ''-'');
              s1 = (if s0 \<noteq> [] \<and> (hd s0 = CHR ''-'' \<or> hd s0 = CHR ''+'') then tl s0 else s0);
              hex = (take 2 s1 = ''0x'' \<or> take 2 s1 = ''0X'');
              ds = (if hex
                    then map (the \<circ> hexValue) (takeWhile (\<lambda>c. hexValue c \<noteq> None) (drop 2 s1))
                    else map (\<lambda>c. (of_char c :: nat) - 48) (takeWhile isDigit s1));
              v = int (digitsValue (if hex then 16 else 10) ds)
          in if ds = [] then None else Some (if negative then - v else v))"

text \<open>\<open>parseInt(boatId.split('-')[1])\<close>\<close>

definition boatNumberOf :: "string \<Rightarrow> int option" where
  "boatNumberOf bid = parseInt (nthOpt (splitOn CHR ''-'' bid) 1)"

text \<open>\<open>a === b\<close> on numbers that may be NaN or undefined.\<close>

definition numStrictEq :: "int option \<Rightarrow> int option \<Rightarrow> bool" where
  "numStrictEq a b = (case a of None \<Rightarrow> False | Some m \<Rightarrow> (case b of None \<Rightarrow> False | Some n \<Rightarrow> m = n))"

definition trim :: "string \<Rightarrow> string" where
  "trim s = rev (dropWhile isWhiteSpace (rev (dropWhile isWhiteSpace s)))"

fun showNat :: "nat \<Rightarrow> string" where
  "showNat n =
     (if n < 10 then [''0123456789'' ! n]
      else showNat (n div 10) @ [''0123456789'' ! (n mod 10)])"

declare showNat.simps [simp del]

subsection \<open>Creating the boats\<close>

definition createInitialBoat :: "int \<Rightarrow> string \<Rightarrow> nat \<Rightarrow> bool \<Rightarrow> Boat" where
  "createInitialBoat uid uname index isLocal =
     (let x = 500 + real index * 120;
          y = 400;
          boatNumber = index + 1;
          bid = ''boat-'' @ showNat boatNumber
      in \<lparr> boatId = bid, userId = uid, username = uname,
           position = \<lparr> posX = x, posY = y \<rparr>, rotation = 0, tack = Starboard,
           speed = 0, sailPosition = 100, lastCheckpoint = 0, isLocalPlayer = isLocal \<rparr>)"

definition centerX :: real where "centerX = 500"
definition halfWidth :: real where "halfWidth = 100"

definition defaultStartLine :: Line where
  "defaultStartLine =
     \<lparr> lineX1 = centerX - halfWidth, lineY1 = 350, lineX2 = centerX + halfWidth, lineY2 = 350 \<rparr>"

definition defaultMarks :: "Mark list" where
  "defaultMarks =
     [\<lparr> markPos = \<lparr> posX = 500, posY = 150 \<rparr>, markType = Top \<rparr>,
      \<lparr> markPos = \<lparr> posX = 500, posY = 300 \<rparr>, markType = Bottom \<rparr>]"

definition initialRaceState :: RaceState where
  "initialRaceState =
     \<lparr> phase = PreStart, startTime = None, timeRemaining = 180, raceTime = 0,
       boats = [], results = [],
       boat1Stage = NotStarted, boat2Stage = NotStarted,
       boat3Stage = NotStarted, boat4Stage = NotStarted,
       startLine = defaultStartLine, marks = defaultMarks, localBoat = None \<rparr>"

text \<open>
  The authenticated user read by \<open>initializeRace\<close> (\<open>useAuth.getState().user\<close>, possibly
  null) and the boat count of the game settings are parameters.
\<close>

record AuthUser =
  authId :: int
  authUsername :: string
  boat1Name :: "string option"
  boat2Name :: "string option"
  boat3Name :: "string option"
  boat4Name :: "string option"

text \<open>\<open>name && name.trim() ? name : dflt\<close>\<close>

definition customName :: "string option \<Rightarrow> string \<Rightarrow> string" where
  "customName nm dflt =
     (case nm of None \<Rightarrow> dflt
      | Some n \<Rightarrow> if n \<noteq> [] \<and> trim n \<noteq> [] then n else dflt)"

definition initializeRace :: "AuthUser option \<Rightarrow> nat \<Rightarrow> RaceState \<Rightarrow> RaceState" where
  "initializeRace authUser boatCount s =
     (let uname = (case authUser of None \<Rightarrow> ''Player 1''
                   | Some u \<Rightarrow> if authUsername u \<noteq> [] then authUsername u else ''Player 1'');
          actualUserId = (case authUser of None \<Rightarrow> 1
                          | Some u \<Rightarrow> if authId u \<noteq> 0 then authId u else 1);
          b1Name = customName (case authUser of None \<Rightarrow> None | Some u \<Rightarrow> boat1Name u) uname;
          b2Name = customName (case authUser of None \<Rightarrow> None | Some u \<Rightarrow> boat2Name u) ''Boat 2'';
          b3Name = customName (case authUser of None \<Rightarrow> None | Some u \<Rightarrow> boat3Name u) ''Boat 3'';
          b4Name = customName (case authUser of None \<Rightarrow> None | Some u \<Rightarrow> boat4Name u) ''Boat 4'';
          lb = createInitialBoat actualUserId b1Name 0 True;
          bs = [lb]
               @ (if boatCount > 1
                  then [createInitialBoat actualUserId b2Name 1 False]
                       @ (if boatCount > 2
                          then [createInitialBoat actualUserId b3Name 2 False]
                               @ (if boatCount > 3
                                  then [createInitialBoat actualUserId b4Name 3 False]
                                  else [])
                          else [])
                  else [])
      in s\<lparr> phase := PreStart, boats := bs, localBoat := Some lb, timeRemaining := 180,
            results := [],
            boat1Stage := NotStarted, boat2Stage := NotStarted,
            boat3Stage := NotStarted, boat4Stage := NotStarted \<rparr>)"

definition startCountdown :: "RaceState \<Rightarrow> RaceState" where
  "startCountdown s = s\<lparr> phase := Starting, timeRemaining := 180, startTime := None \<rparr>"

text \<open>\<open>Date.now()\<close> is the parameter \<open>now\<close>.\<close>

definition startRace :: "real \<Rightarrow> RaceState \<Rightarrow> RaceState" where
  "startRace now s = s\<lparr> phase := Racing, startTime := Some now \<rparr>"

definition resetRace :: "RaceState \<Rightarrow> RaceState" where
  "resetRace s =
     s\<lparr> phase := PreStart, startTime := None, timeRemaining := 180, raceTime := 0,
        boats := [], results := [], localBoat := None,
        boat1Stage := NotStarted, boat2Stage := NotStarted,
        boat3Stage := NotStarted, boat4Stage := NotStarted \<rparr>"

subsection \<open>finishRace\<close>

text \<open>The chain \<open>if (boatId === "boat-1") ... else if (boatId === "boat-4")\<close> reading a stage.\<close>

definition hasCompletedAllStages :: "string \<Rightarrow> RaceState \<Rightarrow> bool" where
  "hasCompletedAllStages bid s =
     (if bid = ''boat-1'' then boat1Stage s = FinishLeg \<or> boat1Stage s = Finished
      else if bid = ''boat-2'' then boat2Stage s = FinishLeg \<or> boat2Stage s = Finished
      else if bid = ''boat-3'' then boat3Stage s = FinishLeg \<or> boat3Stage s = Finished
      else if bid = ''boat-4'' then boat4Stage s = FinishLeg \<or> boat4Stage s = Finished
      else False)"

text \<open>The same chain writing \<open>"Finished"\<close> into the boat's stage.\<close>

definition setStageFinished :: "string \<Rightarrow> RaceState \<Rightarrow> RaceState" where
  "setStageFinished bid s =
     (if bid = ''boat-1'' then s\<lparr> boat1Stage := Finished \<rparr>
      else if bid = ''boat-2'' then s\<lparr> boat2Stage := Finished \<rparr>
      else if bid = ''boat-3'' then s\<lparr> boat3Stage := Finished \<rparr>
      else if bid = ''boat-4'' then s\<lparr> boat4Stage := Finished \<rparr>
      else s)"

text \<open>
  \<open>allResults.sort((a, b) => a.finishTime - b.finishTime)\<close>: a stable sort by finish time
  (\<open>sort_key\<close> is insertion sort and stable), then \<open>map((result, index) => ...)\<close>.
\<close>

definition assignPositions :: "RaceResult list \<Rightarrow> RaceResult list" where
  "assignPositions rs = map (\<lambda>(index, r). r\<lparr> resultPosition := index + 1 \<rparr>) (enumerate 0 rs)"

definition finishRace :: "string \<Rightarrow> real \<Rightarrow> RaceState \<Rightarrow> RaceState" where
  "finishRace bid time s =
     (case find (\<lambda>b. boatId b = bid) (boats s) of
        None \<Rightarrow> s
      | Some boat \<Rightarrow>
          let bn = boatNumberOf bid in
          if list_ex (\<lambda>r. resultUserId r = userId boat \<and> numStrictEq (boatNumber r) bn) (results s)
          then s
          else if \<not> hasCompletedAllStages bid s
          then setStageFinished bid s
          else
            let allResults = results s @
                  [\<lparr> resultUserId = userId boat, resultUsername = username boat,
                     finishTime = time, resultPosition = 0, boatNumber = bn \<rparr>];
                sortedResults = sort_key finishTime allResults;
                updatedResults = assignPositions sortedResults;
                updates = setStageFinished bid (s\<lparr> results := updatedResults \<rparr>);
                activeBoatCount = length (boats s);
                finishedBoatsCount = length (results s) + 1
            in if finishedBoatsCount \<ge> activeBoatCount
               then updates\<lparr> phase := PhaseFinished \<rparr>
               else updates)"

subsection \<open>Writes to the store and runs\<close>

text \<open>\<open>useRace.setState({ boatKStage: st })\<close>, as the game canvas calls it, for K = 1..4.\<close>

definition setStage :: "nat \<Rightarrow> RaceStage \<Rightarrow> RaceState \<Rightarrow> RaceState" where
  "setStage k st s =
     (if k = 1 then s\<lparr> boat1Stage := st \<rparr>
      else if k = 2 then s\<lparr> boat2Stage := st \<rparr>
      else if k = 3 then s\<lparr> boat3Stage := st \<rparr>
      else if k = 4 then s\<lparr> boat4Stage := st \<rparr>
      else s)"

text \<open>
  The operations that write phase, boats, results or stages: the store's actions and the
  \<open>setState\<close> calls of the canvas.  (\<open>updateBoat\<close> and the controls, which move a boat,
  are not part of this list.)
\<close>

datatype RaceEvent =
    EvInitializeRace "AuthUser option" nat
  | EvStartCountdown
  | EvStartRace real
  | EvFinishRace string real
  | EvResetRace
  | EvSetStage nat RaceStage
  | EvSetTimeRemaining real
  | EvSetRaceTime real

fun applyEvent :: "RaceEvent \<Rightarrow> RaceState \<Rightarrow> RaceState" where
  "applyEvent (EvInitializeRace u n) s = initializeRace u n s"
| "applyEvent EvStartCountdown s = startCountdown s"
| "applyEvent (EvStartRace now) s = startRace now s"
| "applyEvent (EvFinishRace bid time) s = finishRace bid time s"
| "applyEvent EvResetRace s = resetRace s"
| "applyEvent (EvSetStage k st) s = setStage k st s"
| "applyEvent (EvSetTimeRemaining t) s = s\<lparr> timeRemaining := t \<rparr>"
| "applyEvent (EvSetRaceTime t) s = s\<lparr> raceTime := t \<rparr>"

definition run :: "RaceEvent list \<Rightarrow> RaceState \<Rightarrow> RaceState" where
  "run es s = foldl (\<lambda>st e. applyEvent e st) s es"


text \<open>
  The test \<open>finishRace\<close> uses to decide that a boat already holds a result, and the three
  conditions under which a call records one.
\<close>

definition hasResult :: "Boat \<Rightarrow> RaceState \<Rightarrow> bool" where
  "hasResult b s =
     list_ex (\<lambda>r. resultUserId r = userId b \<and> numStrictEq (boatNumber r) (boatNumberOf (boatId b)))
       (results s)"

definition recordsResult :: "string \<Rightarrow> RaceState \<Rightarrow> bool" where
  "recordsResult bid s =
     (case find (\<lambda>b. boatId b = bid) (boats s) of
        None \<Rightarrow> False
      | Some boat \<Rightarrow>
          \<not> list_ex (\<lambda>r. resultUserId r = userId boat
                          \<and> numStrictEq (boatNumber r) (boatNumberOf bid)) (results s)
          \<and> hasCompletedAllStages bid s)"

text \<open>
  The identity under which results are de-duplicated, and the invariant of the store:
  boats have distinct identities with a parsable boat number, results have distinct
  identities and each belongs to a boat, and the phase is finished only when there are
  at least as many results as boats.
\<close>

definition resultKey :: "RaceResult \<Rightarrow> int \<times> int option" where
  "resultKey r = (resultUserId r, boatNumber r)"

definition boatKey :: "Boat \<Rightarrow> int \<times> int option" where
  "boatKey b = (userId b, boatNumberOf (boatId b))"

definition storeInv :: "RaceState \<Rightarrow> bool" where
  "storeInv s =
     (distinct (map boatKey (boats s))
      \<and> (\<forall>b \<in> set (boats s). boatNumberOf (boatId b) \<noteq> None)
      \<and> distinct (map resultKey (results s))
      \<and> set (map resultKey (results s)) \<subseteq> set (map boatKey (boats s))
      \<and> (phase s = PhaseFinished \<longrightarrow> length (boats s) \<le> length (results s)))"

text \<open>
  The stage \<open>finishRace\<close> reports as the boat's current stage (the conditional chain of its
  log message, which falls through to \<open>boat4Stage\<close>).
\<close>

definition stageOfBoat :: "string \<Rightarrow> RaceState \<Rightarrow> RaceStage" where
  "stageOfBoat bid s =
     (if bid = ''boat-1'' then boat1Stage s
      else if bid = ''boat-2'' then boat2Stage s
      else if bid = ''boat-3'' then boat3Stage s
      else boat4Stage s)"

section \<open>Race progression in the game loop (SimpleGameCanvas.tsx, draw)\<close>

text \<open>
  The component keeps each boat's \<open>{x, y, rotation, speed}\<close> in React state, a finished flag
  per boat in a ref, and reads the stages of boats 1 and 2 from the store inside the tick
  (\<open>useRace.getState()\<close>), but those of boats 3 and 4 from the values the hook
  \<open>useRace()\<close> returned at the last render.  A session is the store together with the
  flags and these two rendered values.
\<close>

record BoatState =
  bsX :: real
  bsY :: real
  bsRotation :: real
  bsSpeed :: real

record MarkRef =
  mrX :: real
  mrY :: real
  mrRadius :: real

record Session =
  race :: RaceState
  boat1FinishedRef :: bool
  boat2FinishedRef :: bool
  boat3FinishedRef :: bool
  boat4FinishedRef :: bool
  renderedBoat3Stage :: RaceStage
  renderedBoat4Stage :: RaceStage

text \<open>
  What one tick reads besides the session: the rendered phase and pause flag, the boat
  count, the boat radius, the four boat states, the course refs, and for each boat the
  value of \<open>Date.now() - (raceStartTime || 0)\<close> at its finish.
\<close>

record TickInput =
  tiPhase :: RacePhase
  tiPaused :: bool
  tiBoatCount :: nat
  tiBoatRadius :: real
  tiBoat1 :: BoatState
  tiBoat2 :: BoatState
  tiBoat3 :: BoatState
  tiBoat4 :: BoatState
  tiStartLine :: Line
  tiTopMark :: MarkRef
  tiBottomMark :: MarkRef
  tiFinishTime1 :: real
  tiFinishTime2 :: real
  tiFinishTime3 :: real
  tiFinishTime4 :: real

definition isCrossingStartLine :: "real \<Rightarrow> Line \<Rightarrow> BoatState \<Rightarrow> bool" where
  "isCrossingStartLine boatRadius line b =
     (let isNearStartLine = \<bar>bsY b - lineY1 line\<bar> < boatRadius * 3;
          isBetweenPosts = (bsX b \<ge> lineX1 line - boatRadius \<and> bsX b \<le> lineX2 line + boatRadius);
          isMovingUpward = (bsRotation b > 260 \<or> bsRotation b < 100)
      in isNearStartLine \<and> isBetweenPosts \<and> isMovingUpward)"

definition hasRoundedTopMark :: "real \<Rightarrow> MarkRef \<Rightarrow> BoatState \<Rightarrow> bool" where
  "hasRoundedTopMark boatRadius topMark b =
     (let xDistanceFromMark = \<bar>bsX b - mrX topMark\<bar>
      in bsY b \<le> mrY topMark \<and> xDistanceFromMark \<le> boatRadius * 2)"

definition hasRoundedBottomMark :: "real \<Rightarrow> MarkRef \<Rightarrow> BoatState \<Rightarrow> bool" where
  "hasRoundedBottomMark boatRadius bottomMark b =
     (let xDistanceFromMark = \<bar>bsX b - mrX bottomMark\<bar>
      in bsY b \<ge> mrY bottomMark \<and> xDistanceFromMark \<le> boatRadius * 2)"

text \<open>The heading test \<open>isMovingDownward\<close> of the source is only logged.\<close>

definition isAtFinishLine :: "Line \<Rightarrow> BoatState \<Rightarrow> bool" where
  "isAtFinishLine line b =
     (let hasMatchingYPosition = \<bar>bsY b - lineY1 line\<bar> < 20;
          isBetweenPosts = (bsX b \<ge> lineX1 line \<and> bsX b \<le> lineX2 line)
      in isBetweenPosts \<and> hasMatchingYPosition)"

definition boatIdLit :: "nat \<Rightarrow> string" where
  "boatIdLit k =
     (if k = 1 then ''boat-1'' else if k = 2 then ''boat-2''
      else if k = 3 then ''boat-3'' else ''boat-4'')"

definition finishedRef :: "nat \<Rightarrow> Session \<Rightarrow> bool" where
  "finishedRef k sess =
     (if k = 1 then boat1FinishedRef sess else if k = 2 then boat2FinishedRef sess
      else if k = 3 then boat3FinishedRef sess else boat4FinishedRef sess)"

definition setFinishedRef :: "nat \<Rightarrow> Session \<Rightarrow> Session" where
  "setFinishedRef k sess =
     (if k = 1 then sess\<lparr> boat1FinishedRef := True \<rparr>
      else if k = 2 then sess\<lparr> boat2FinishedRef := True \<rparr>
      else if k = 3 then sess\<lparr> boat3FinishedRef := True \<rparr>
      else sess\<lparr> boat4FinishedRef := True \<rparr>)"

text \<open>
  The progression block of boat \<open>k\<close>.  The source has one copy per boat, equal up to the
  boat's state, ref and id; \<open>stage\<close> is the constant the block tests (\<open>boat1Stage\<close> ..
  \<open>boat4Stage\<close>), so the five \<open>if\<close> statements are taken in sequence against the same
  value, each writing the store.
\<close>

definition boatProgression ::
  "nat \<Rightarrow> RaceStage \<Rightarrow> BoatState \<Rightarrow> real \<Rightarrow> TickInput \<Rightarrow> Session \<Rightarrow> Session" where
  "boatProgression k stage b ftime inp sess0 =
     (let sess1 = (if stage = StartLeg
                      \<and> isCrossingStartLine (tiBoatRadius inp) (tiStartLine inp) b
                   then sess0\<lparr> race := setStage k UpwindLeg (race sess0) \<rparr> else sess0);
          sess2 = (if stage = UpwindLeg
                      \<and> hasRoundedTopMark (tiBoatRadius inp) (tiTopMark inp) b
                   then sess1\<lparr> race := setStage k DownwindLeg (race sess1) \<rparr> else sess1);
          sess3 = (if stage = DownwindLeg
                      \<and> hasRoundedBottomMark (tiBoatRadius inp) (tiBottomMark inp) b
                   then sess2\<lparr> race := setStage k SecondUpwindLeg (race sess2) \<rparr> else sess2);
          sess4 = (if stage = SecondUpwindLeg
                      \<and> hasRoundedTopMark (tiBoatRadius inp) (tiTopMark inp) b
                   then sess3\<lparr> race := setStage k FinishLeg (race sess3) \<rparr> else sess3)
      in if stage = FinishLeg \<and> \<not> finishedRef k sess4 \<and> isAtFinishLine (tiStartLine inp) b
         then
           let sess5 = setFinishedRef k (sess4\<lparr> race := setStage k Finished (race sess4) \<rparr>)
           in (case find (\<lambda>bt. boatId bt = boatIdLit k) (boats (race sess5)) of
                 None \<Rightarrow> sess5
               | Some currentBoat \<Rightarrow>
                   sess5\<lparr> race := finishRace (boatIdLit k) ftime (race sess5) \<rparr>)
         else sess4)"



text \<open>
  The effect \<open>useEffect(() => { if (phase === "racing") { ... } }, [phase, boatCount])\<close>
  that initialises the stages when the race starts.  It runs when the rendered phase or
  the boat count changes; if any active boat is still Not Started it writes Start Leg
  for every active boat.
\<close>

definition initStagesEffect :: "RacePhase \<Rightarrow> nat \<Rightarrow> RaceState \<Rightarrow> RaceState" where
  "initStagesEffect renderedPhase boatCount s =
     (if renderedPhase = Racing then
        let needsInit =
              (boat1Stage s = NotStarted
               \<or> (boatCount \<ge> 2 \<and> boat2Stage s = NotStarted)
               \<or> (boatCount \<ge> 3 \<and> boat3Stage s = NotStarted)
               \<or> (boatCount \<ge> 4 \<and> boat4Stage s = NotStarted))
        in if needsInit then
             let u1 = setStage 1 StartLeg s;
                 u2 = (if boatCount \<ge> 2 then setStage 2 StartLeg u1 else u1);
                 u3 = (if boatCount \<ge> 3 then setStage 3 StartLeg u2 else u2)
             in if boatCount \<ge> 4 then setStage 4 StartLeg u3 else u3
           else s
      else s)"

text \<open>
  A store in which boat 1 holds a result while its stage is back at Start Leg: in a
  two-boat race boat 1 reaches the finish leg and finishes, then the boat count of the
  settings becomes 3 and the effect above runs.
\<close>

definition duplicateFinishState :: RaceState where
  "duplicateFinishState =
     initStagesEffect Racing 3
       (run [EvInitializeRace None 2, EvStartRace 0, EvSetStage 1 FinishLeg,
             EvFinishRace ''boat-1'' 5000] initialRaceState)"




fun stageIndex :: "RaceStage \<Rightarrow> nat" where
  "stageIndex NotStarted = 0"
| "stageIndex StartLeg = 1"
| "stageIndex UpwindLeg = 2"
| "stageIndex DownwindLeg = 3"
| "stageIndex SecondUpwindLeg = 4"
| "stageIndex FinishLeg = 5"
| "stageIndex Finished = 6"

text \<open>No boat's stage index is lower in \<open>s'\<close> than in \<open>s\<close>.\<close>

definition stagesLe :: "RaceState \<Rightarrow> RaceState \<Rightarrow> bool" where
  "stagesLe s s' =
     (stageIndex (boat1Stage s) \<le> stageIndex (boat1Stage s')
      \<and> stageIndex (boat2Stage s) \<le> stageIndex (boat2Stage s')
      \<and> stageIndex (boat3Stage s) \<le> stageIndex (boat3Stage s')
      \<and> stageIndex (boat4Stage s) \<le> stageIndex (boat4Stage s'))"







section \<open>Boat speed in the game loop (SimpleGameCanvas.tsx, draw)\<close>

record WindPuff =
  puffX :: real
  puffY :: real
  puffWidth :: real
  puffHeight :: real
  speedBoost :: real
  puffOpacity :: real

definition posOf :: "BoatState \<Rightarrow> Pos" where
  "posOf b = \<lparr> posX = bsX b, posY = bsY b \<rparr>"

text \<open>\<open>Math.abs(windDirection - boatDirection)\<close>, folded at 180.\<close>

definition relativeAngleOf :: "real \<Rightarrow> real \<Rightarrow> real" where
  "relativeAngleOf windDirection boatDirection =
     (let relativeAngle = \<bar>windDirection - boatDirection\<bar>
      in if relativeAngle > 180 then 360 - relativeAngle else relativeAngle)"

definition bandEfficiency :: "real \<Rightarrow> real" where
  "bandEfficiency relativeAngle =
     (if relativeAngle < 30 then 0
      else if relativeAngle < 60 then 0.5
      else if relativeAngle < 120 then 1.0
      else if relativeAngle < 150 then 0.8
      else 0.6)"

text \<open>
  The elliptical membership test of a puff.  A zero width or height makes the JavaScript
  quotient infinite or NaN, and the comparison \<open>distance < 1\<close> false.
\<close>

definition isInsidePuff :: "BoatState \<Rightarrow> WindPuff \<Rightarrow> bool" where
  "isInsidePuff b puff =
     (if puffWidth puff = 0 \<or> puffHeight puff = 0 then False
      else sqrt (((bsX b - puffX puff) / (puffWidth puff / 2))\<^sup>2
               + ((bsY b - puffY puff) / (puffHeight puff / 2))\<^sup>2) < 1)"

text \<open>
  \<open>for (const puff of windPuffs) { if (distance < 1) { if (relativeAngle >= 30)
  windEfficiency += puff.speedBoost; break; } }\<close>
\<close>

fun applyWindPuffs :: "real \<Rightarrow> BoatState \<Rightarrow> WindPuff list \<Rightarrow> real \<Rightarrow> real" where
  "applyWindPuffs relativeAngle b [] windEfficiency = windEfficiency"
| "applyWindPuffs relativeAngle b (puff # puffs) windEfficiency =
     (if isInsidePuff b puff
      then (if relativeAngle \<ge> 30 then windEfficiency + speedBoost puff else windEfficiency)
      else applyWindPuffs relativeAngle b puffs windEfficiency)"

text \<open>
  The wind efficiency of a boat that is not luffing: band, wind shadow penalty, puff.  The
  four copies in the source differ only in how \<open>isInWindShadow\<close> is computed.
\<close>

definition windEfficiencyOf :: "real \<Rightarrow> BoatState \<Rightarrow> bool \<Rightarrow> WindPuff list \<Rightarrow> real" where
  "windEfficiencyOf windDirection b isInWindShadow windPuffs =
     (let relativeAngle = relativeAngleOf windDirection (bsRotation b);
          e0 = bandEfficiency relativeAngle;
          e1 = (if isInWindShadow then max 0.1 (e0 - 0.2) else e0)
      in applyWindPuffs relativeAngle b windPuffs e1)"

definition maxSpeedOf :: "real \<Rightarrow> BoatState \<Rightarrow> bool \<Rightarrow> WindPuff list \<Rightarrow> real" where
  "maxSpeedOf windDirection b isInWindShadow windPuffs =
     50 * windEfficiencyOf windDirection b isInWindShadow windPuffs"

text \<open>
  The wind shadow flags of the four boats.  All use \<open>boatRadius * 6\<close> as shadow length;
  boat 1 guards every test by the boat count, boats 2 to 4 test against boat 1 first.
\<close>

definition boat1InWindShadow ::
  "bool \<Rightarrow> nat \<Rightarrow> real \<Rightarrow> BoatState \<Rightarrow> BoatState \<Rightarrow> BoatState \<Rightarrow> BoatState \<Rightarrow> bool" where
  "boat1InWindShadow singleBoatMode boatCount boatRadius b1 b2 b3 b4 =
     (let s0 = False;
          s1 = (if \<not> s0 \<and> boatCount \<ge> 2
                then isInTurbulenceZone singleBoatMode (posOf b1) (posOf b2) (bsRotation b2)
                       (boatRadius * 6) else s0);
          s2 = (if \<not> s1 \<and> boatCount \<ge> 3
                then isInTurbulenceZone singleBoatMode (posOf b1) (posOf b3) (bsRotation b3)
                       (boatRadius * 6) else s1)
      in if \<not> s2 \<and> boatCount \<ge> 4
         then isInTurbulenceZone singleBoatMode (posOf b1) (posOf b4) (bsRotation b4)
                (boatRadius * 6) else s2)"

definition boat2InWindShadow ::
  "bool \<Rightarrow> nat \<Rightarrow> real \<Rightarrow> BoatState \<Rightarrow> BoatState \<Rightarrow> BoatState \<Rightarrow> BoatState \<Rightarrow> bool" where
  "boat2InWindShadow singleBoatMode boatCount boatRadius b1 b2 b3 b4 =
     (let s1 = isInTurbulenceZone singleBoatMode (posOf b2) (posOf b1) (bsRotation b1)
                 (boatRadius * 6);
          s2 = (if \<not> s1 \<and> boatCount \<ge> 3
                then isInTurbulenceZone singleBoatMode (posOf b2) (posOf b3) (bsRotation b3)
                       (boatRadius * 6) else s1)
      in if \<not> s2 \<and> boatCount \<ge> 4
         then isInTurbulenceZone singleBoatMode (posOf b2) (posOf b4) (bsRotation b4)
                (boatRadius * 6) else s2)"

definition boat3InWindShadow ::
  "bool \<Rightarrow> nat \<Rightarrow> real \<Rightarrow> BoatState \<Rightarrow> BoatState \<Rightarrow> BoatState \<Rightarrow> BoatState \<Rightarrow> bool" where
  "boat3InWindShadow singleBoatMode boatCount boatRadius b1 b2 b3 b4 =
     (let s1 = isInTurbulenceZone singleBoatMode (posOf b3) (posOf b1) (bsRotation b1)
                 (boatRadius * 6);
          s2 = (if \<not> s1 \<and> boatCount \<ge> 2
                then isInTurbulenceZone singleBoatMode (posOf b3) (posOf b2) (bsRotation b2)
                       (boatRadius * 6) else s1)
      in if \<not> s2 \<and> boatCount \<ge> 4
         then isInTurbulenceZone singleBoatMode (posOf b3) (posOf b4) (bsRotation b4)
                (boatRadius * 6) else s2)"

definition boat4InWindShadow ::
  "bool \<Rightarrow> nat \<Rightarrow> real \<Rightarrow> BoatState \<Rightarrow> BoatState \<Rightarrow> BoatState \<Rightarrow> BoatState \<Rightarrow> bool" where
  "boat4InWindShadow singleBoatMode boatCount boatRadius b1 b2 b3 b4 =
     (let s1 = isInTurbulenceZone singleBoatMode (posOf b4) (posOf b1) (bsRotation b1)
                 (boatRadius * 6);
          s2 = (if \<not> s1 \<and> boatCount \<ge> 2
                then isInTurbulenceZone singleBoatMode (posOf b4) (posOf b2) (bsRotation b2)
                       (boatRadius * 6) else s1)
      in if \<not> s2 \<and> boatCount \<ge> 3
         then isInTurbulenceZone singleBoatMode (posOf b4) (posOf b3) (bsRotation b3)
                (boatRadius * 6) else s2)"

text \<open>
  The speed a boat is given in one tick (\<open>setBoatState((prev) => ...)\<close>): towards the
  maximum speed when not luffing, towards zero three times as fast when luffing.
  \<open>acceleration = 50 * deltaTime\<close>.
\<close>

definition updatedSpeed ::
  "bool \<Rightarrow> real \<Rightarrow> real \<Rightarrow> BoatState \<Rightarrow> bool \<Rightarrow> WindPuff list \<Rightarrow> real \<Rightarrow> real" where
  "updatedSpeed luffing deltaTime windDirection b isInWindShadow windPuffs prevSpeed =
     (let acceleration = 50 * deltaTime in
      if \<not> luffing
      then min (maxSpeedOf windDirection b isInWindShadow windPuffs)
               (prevSpeed + acceleration * windEfficiencyOf windDirection b isInWindShadow windPuffs)
      else max 0 (prevSpeed - acceleration * 3))"

text \<open>
  Two boats, wind from North (0): boat 1 heads North 50 units due south of boat 2, with
  boat radius 10, inside a puff of boost 0.5.
\<close>

definition shadowedBoat1 :: BoatState where
  "shadowedBoat1 = \<lparr> bsX = 100, bsY = 150, bsRotation = 0, bsSpeed = 0 \<rparr>"

definition shadowingBoat2 :: BoatState where
  "shadowingBoat2 = \<lparr> bsX = 100, bsY = 100, bsRotation = 0, bsSpeed = 0 \<rparr>"

definition examplePuff :: WindPuff where
  "examplePuff = \<lparr> puffX = 100, puffY = 150, puffWidth = 80, puffHeight = 60,
                    speedBoost = 0.5, puffOpacity = 0.6 \<rparr>"

section \<open>Wind store (useWind.tsx)\<close>

datatype Season = SanFrancisco | LongBeach | NewportHarbor

datatype WindChangeSpeed = Slow | Medium | Rapid

datatype PuffFrequency = LowPuffs | MediumPuffs | HighPuffs

datatype PuffDistribution = RandomPuffs | BiasedPuffs

record LocationWindSettings =
  windDirectionRange :: real
  windChangeSpeed :: WindChangeSpeed
  puffFrequency :: PuffFrequency
  puffDistribution :: PuffDistribution
  currentMin :: real
  currentMax :: real
  baseWindStrength :: real
  windMaxStrength :: real

fun locationSettings :: "Season \<Rightarrow> LocationWindSettings" where
  "locationSettings SanFrancisco =
     \<lparr> windDirectionRange = 10, windChangeSpeed = Medium, puffFrequency = MediumPuffs,
       puffDistribution = RandomPuffs, currentMin = 2.0, currentMax = 5.0,
       baseWindStrength = 16, windMaxStrength = 28 \<rparr>"
| "locationSettings LongBeach =
     \<lparr> windDirectionRange = 10, windChangeSpeed = Medium, puffFrequency = MediumPuffs,
       puffDistribution = BiasedPuffs, currentMin = 0.0, currentMax = 1.5,
       baseWindStrength = 5, windMaxStrength = 28 \<rparr>"
| "locationSettings NewportHarbor =
     \<lparr> windDirectionRange = 20, windChangeSpeed = Rapid, puffFrequency = HighPuffs,
       puffDistribution = RandomPuffs, currentMin = 0.0, currentMax = 0.0,
       baseWindStrength = 5, windMaxStrength = 12 \<rparr>"

record WindCell =
  cellId :: nat
  cellX :: real
  cellY :: real
  cellRadius :: real
  cellStrength :: real

record WindState =
  baseStrength :: real
  direction :: real
  cells :: "WindCell list"
  currentDirection :: real
  currentStrength :: real
  tick :: nat

text \<open>
  The JavaScript remainder \<open>a % n\<close> on numbers: the quotient is truncated towards zero, so
  the result has the sign of \<open>a\<close>.
\<close>

definition jsRem :: "real \<Rightarrow> real \<Rightarrow> real" where
  "jsRem a n = a - n * of_int (if a / n \<ge> 0 then \<lfloor>a / n\<rfloor> else \<lceil>a / n\<rceil>)"

definition shiftMagnitudeOf :: "Season \<Rightarrow> real" where
  "shiftMagnitudeOf currentSeason =
     (let settings = locationSettings currentSeason in
      if windChangeSpeed settings = Medium then 1.0
      else if windChangeSpeed settings = Rapid
      then (if currentSeason = NewportHarbor then 4.0 else 2.0)
      else 0.5)"

text \<open>
  The random shift.  \<open>r1\<close> and \<open>r2\<close> are the values of the first and second call of
  \<open>Math.random()\<close> the branch makes; the last branch is the source's generic one.
\<close>

definition randomShiftOf :: "Season \<Rightarrow> real \<Rightarrow> real \<Rightarrow> real" where
  "randomShiftOf currentSeason r1 r2 =
     (let shiftMagnitude = shiftMagnitudeOf currentSeason in
      if currentSeason = NewportHarbor then (if r1 > 0.5 then 2.0 else - 2.0)
      else if currentSeason = SanFrancisco
      then (if r1 < 0.6 then - (r2 * shiftMagnitude + 0.5) else r2 * shiftMagnitude + 0.5)
      else if currentSeason = LongBeach
      then (if r1 > 0.5 then 1 else - 1) * (r2 * shiftMagnitude)
      else r1 * 2 * shiftMagnitude - shiftMagnitude)"

text \<open>\<open>(state.direction + randomShift) % 360\<close>, plus 360 when negative.\<close>

definition shiftedDirection :: "real \<Rightarrow> real \<Rightarrow> real" where
  "shiftedDirection dir randomShift =
     (let newDirection = jsRem (dir + randomShift) 360
      in if newDirection < 0 then newDirection + 360 else newDirection)"

text \<open>The clamp to the venue's range around North.\<close>

definition clampDirection :: "real \<Rightarrow> real \<Rightarrow> real" where
  "clampDirection windRange newDirection =
     (if newDirection = 0 \<or> newDirection = 360 then 0
      else if newDirection > 0 \<and> newDirection \<le> 180
      then (if newDirection > windRange then windRange else newDirection)
      else (if newDirection < 360 \<and> newDirection > 180 \<and> newDirection < 360 - windRange
            then 360 - windRange else newDirection))"

definition updateWindDirection :: "Season \<Rightarrow> real \<Rightarrow> real \<Rightarrow> WindState \<Rightarrow> WindState" where
  "updateWindDirection currentSeason r1 r2 state =
     (let settings = locationSettings currentSeason;
          randomShift = randomShiftOf currentSeason r1 r2;
          newDirection = shiftedDirection (direction state) randomShift;
          windRange = windDirectionRange settings
      in state\<lparr> direction := clampDirection windRange newDirection, tick := tick state + 1 \<rparr>)"

text \<open>Any number of calls at one venue, each with its own random values.\<close>

fun updateWindDirections :: "Season \<Rightarrow> (real \<times> real) list \<Rightarrow> WindState \<Rightarrow> WindState" where
  "updateWindDirections currentSeason [] state = state"
| "updateWindDirections currentSeason ((r1, r2) # rs) state =
     updateWindDirections currentSeason rs (updateWindDirection currentSeason r1 r2 state)"

text \<open>The legal directions of a venue: \<open>[0, windRange] \<union> [360 - windRange, 360)\<close>.\<close>

definition legalDirection :: "Season \<Rightarrow> real \<Rightarrow> bool" where
  "legalDirection currentSeason d =
     (let windRange = windDirectionRange (locationSettings currentSeason)
      in (0 \<le> d \<and> d \<le> windRange) \<or> (360 - windRange \<le> d \<and> d < 360))"

definition initialWindState :: WindState where
  "initialWindState =
     \<lparr> baseStrength = 5, direction = 0, cells = [], currentDirection = 0,
       currentStrength = 0, tick = 0 \<rparr>"

section \<open>Kinematics and boat-boat collisions in the game loop (SimpleGameCanvas.tsx, draw)\<close>










record Candidates =
  newBoat1 :: Pos
  newBoat2 :: Pos
  newBoat3 :: Pos
  newBoat4 :: Pos




subsection \<open>Boat-boat collisions\<close>

record BoatCollisionInfo =
  bcId :: nat
  bcX :: real
  bcY :: real
  bcSpeed :: real
  needsAdjustment :: bool

text \<open>The variables the collision code writes: adjusted positions and speeds of the boats.\<close>

record CollisionVars =
  newBoat1XWithMarks :: real
  newBoat1YWithMarks :: real
  newBoat2XWithMarks :: real
  newBoat2YWithMarks :: real
  newBoat3XWithMarks :: real
  newBoat3YWithMarks :: real
  newBoat4XWithMarks :: real
  newBoat4YWithMarks :: real
  boat1SpeedAdjusted :: real
  boat2SpeedAdjusted :: real
  boat3SpeedAdjusted :: real
  boat4SpeedAdjusted :: real

text \<open>
  \<open>Math.atan2(y, x)\<close> on real numbers (signed zeros are outside the model; both arguments
  zero give 0, as for \<open>+0\<close>).
\<close>

definition jsAtan2 :: "real \<Rightarrow> real \<Rightarrow> real" where
  "jsAtan2 y x =
     (if x > 0 then arctan (y / x)
      else if x < 0 then (if y \<ge> 0 then arctan (y / x) + pi else arctan (y / x) - pi)
      else if y > 0 then pi / 2
      else if y < 0 then - (pi / 2)
      else 0)"

text \<open>The chain \<open>if (boat.id === 1) { ... } else if (boat.id === 2) ...\<close>.\<close>

definition setAdjusted :: "nat \<Rightarrow> real \<Rightarrow> real \<Rightarrow> real \<Rightarrow> CollisionVars \<Rightarrow> CollisionVars" where
  "setAdjusted bid x y sp vars =
     (if bid = 1
      then vars\<lparr> newBoat1XWithMarks := x, newBoat1YWithMarks := y, boat1SpeedAdjusted := sp \<rparr>
      else if bid = 2
      then vars\<lparr> newBoat2XWithMarks := x, newBoat2YWithMarks := y, boat2SpeedAdjusted := sp \<rparr>
      else if bid = 3
      then vars\<lparr> newBoat3XWithMarks := x, newBoat3YWithMarks := y, boat3SpeedAdjusted := sp \<rparr>
      else if bid = 4
      then vars\<lparr> newBoat4XWithMarks := x, newBoat4YWithMarks := y, boat4SpeedAdjusted := sp \<rparr>
      else vars)"

definition adjustedPos :: "nat \<Rightarrow> CollisionVars \<Rightarrow> Pos" where
  "adjustedPos bid vars =
     (if bid = 1 then \<lparr> posX = newBoat1XWithMarks vars, posY = newBoat1YWithMarks vars \<rparr>
      else if bid = 2 then \<lparr> posX = newBoat2XWithMarks vars, posY = newBoat2YWithMarks vars \<rparr>
      else if bid = 3 then \<lparr> posX = newBoat3XWithMarks vars, posY = newBoat3YWithMarks vars \<rparr>
      else \<lparr> posX = newBoat4XWithMarks vars, posY = newBoat4YWithMarks vars \<rparr>)"

definition adjustedSpeed :: "nat \<Rightarrow> CollisionVars \<Rightarrow> real" where
  "adjustedSpeed bid vars =
     (if bid = 1 then boat1SpeedAdjusted vars
      else if bid = 2 then boat2SpeedAdjusted vars
      else if bid = 3 then boat3SpeedAdjusted vars
      else boat4SpeedAdjusted vars)"

definition distanceBetween :: "real \<Rightarrow> real \<Rightarrow> real \<Rightarrow> real \<Rightarrow> real" where
  "distanceBetween x1 y1 x2 y2 = sqrt ((x1 - x2)\<^sup>2 + (y1 - y2)\<^sup>2)"

definition pushDistanceOf :: "real \<Rightarrow> real \<Rightarrow> real" where
  "pushDistanceOf boatRadius distance =
     max ((boatRadius * 2 - distance) * 0.75) (boatRadius * 0.25)"

text \<open>
  The body of the loop over the pairs \<open>i < j\<close> of the array \<open>activeBoats\<close>: the entries
  keep their candidate \<open>x\<close>, \<open>y\<close> and \<open>speed\<close>; only the flags and the variables change.
\<close>

definition collidePair ::
  "real \<Rightarrow> nat \<Rightarrow> nat \<Rightarrow> BoatCollisionInfo list \<times> CollisionVars
     \<Rightarrow> BoatCollisionInfo list \<times> CollisionVars" where
  "collidePair boatRadius i j st =
     (let activeBoats = fst st; vars = snd st;
          boat1 = activeBoats ! i;
          boat2 = activeBoats ! j;
          distance = distanceBetween (bcX boat1) (bcY boat1) (bcX boat2) (bcY boat2)
      in if distance < boatRadius * 2
         then
           let collisionAngle = jsAtan2 (bcY boat2 - bcY boat1) (bcX boat2 - bcX boat1);
               pushDistance = pushDistanceOf boatRadius distance;
               pushX = cos collisionAngle * pushDistance;
               pushY = sin collisionAngle * pushDistance;
               flagged = (activeBoats[i := boat1\<lparr> needsAdjustment := True \<rparr>])
                           [j := boat2\<lparr> needsAdjustment := True \<rparr>];
               vars1 = setAdjusted (bcId boat1) (bcX boat1 - pushX) (bcY boat1 - pushY)
                         (bcSpeed boat1 * 0.95) vars;
               vars2 = setAdjusted (bcId boat2) (bcX boat2 + pushX) (bcY boat2 + pushY)
                         (bcSpeed boat2 * 0.95) vars1
           in (flagged, vars2)
         else (activeBoats, vars))"

text \<open>\<open>for (i = 0; i < n; i++) for (j = i + 1; j < n; j++)\<close>\<close>

definition pairIndices :: "nat \<Rightarrow> (nat \<times> nat) list" where
  "pairIndices n = concat (map (\<lambda>i. map (\<lambda>j. (i, j)) [i + 1..<n]) [0..<n])"

text \<open>
  The boat-boat section: the array of the active boats from the candidate positions and
  the speeds at the start of the tick, the loop, and the flags read back from the array
  (a boat that is not in play keeps the flag \<open>false\<close>).
\<close>

record CollisionFlags =
  boat1NeedsAdjustment :: bool
  boat2NeedsAdjustment :: bool
  boat3NeedsAdjustment :: bool
  boat4NeedsAdjustment :: bool

definition boatBoatCollisions ::
  "nat \<Rightarrow> real \<Rightarrow> Candidates \<Rightarrow> BoatState \<Rightarrow> BoatState \<Rightarrow> BoatState \<Rightarrow> BoatState
     \<Rightarrow> CollisionVars \<Rightarrow> CollisionFlags \<times> CollisionVars" where
  "boatBoatCollisions boatCount boatRadius c b1 b2 b3 b4 vars =
     (if boatCount \<ge> 2 then
        let activeBoats =
              [\<lparr> bcId = 1, bcX = posX (newBoat1 c), bcY = posY (newBoat1 c),
                 bcSpeed = bsSpeed b1, needsAdjustment = False \<rparr>,
               \<lparr> bcId = 2, bcX = posX (newBoat2 c), bcY = posY (newBoat2 c),
                 bcSpeed = bsSpeed b2, needsAdjustment = False \<rparr>]
              @ (if boatCount \<ge> 3
                 then [\<lparr> bcId = 3, bcX = posX (newBoat3 c), bcY = posY (newBoat3 c),
                         bcSpeed = bsSpeed b3, needsAdjustment = False \<rparr>] else [])
              @ (if boatCount \<ge> 4
                 then [\<lparr> bcId = 4, bcX = posX (newBoat4 c), bcY = posY (newBoat4 c),
                         bcSpeed = bsSpeed b4, needsAdjustment = False \<rparr>] else []);
            st = foldl (\<lambda>acc (i, j). collidePair boatRadius i j acc) (activeBoats, vars)
                   (pairIndices (length activeBoats))
        in (\<lparr> boat1NeedsAdjustment = needsAdjustment (fst st ! 0),
              boat2NeedsAdjustment = needsAdjustment (fst st ! 1),
              boat3NeedsAdjustment = (if boatCount \<ge> 3 then needsAdjustment (fst st ! 2)
                                      else False),
              boat4NeedsAdjustment = (if boatCount \<ge> 4 then needsAdjustment (fst st ! 3)
                                      else False) \<rparr>,
            snd st)
      else (\<lparr> boat1NeedsAdjustment = False, boat2NeedsAdjustment = False,
              boat3NeedsAdjustment = False, boat4NeedsAdjustment = False \<rparr>, vars))"

text \<open>The variables before the section: candidate positions and current speeds.\<close>

definition initialCollisionVars ::
  "Candidates \<Rightarrow> BoatState \<Rightarrow> BoatState \<Rightarrow> BoatState \<Rightarrow> BoatState \<Rightarrow> CollisionVars" where
  "initialCollisionVars c b1 b2 b3 b4 =
     \<lparr> newBoat1XWithMarks = posX (newBoat1 c), newBoat1YWithMarks = posY (newBoat1 c),
       newBoat2XWithMarks = posX (newBoat2 c), newBoat2YWithMarks = posY (newBoat2 c),
       newBoat3XWithMarks = posX (newBoat3 c), newBoat3YWithMarks = posY (newBoat3 c),
       newBoat4XWithMarks = posX (newBoat4 c), newBoat4YWithMarks = posY (newBoat4 c),
       boat1SpeedAdjusted = bsSpeed b1, boat2SpeedAdjusted = bsSpeed b2,
       boat3SpeedAdjusted = bsSpeed b3, boat4SpeedAdjusted = bsSpeed b4 \<rparr>"



section \<open>Properties\<close>

text \<open>
  C9.  The wind-shadow test ignores the blocking boat's rotation (and takes no wind
  direction at all): outside single-boat mode it is true exactly when the boat is
  strictly south of the blocker, the centre distance is at most the shadow length, and
  the horizontal offset is less than \<open>(distance / shadowLength) * (shadowLength * 0.5)\<close>;
  in single-boat mode it is false for every input.
\<close>

theorem isInTurbulenceZone_cone:
  "isInTurbulenceZone singleBoatMode boatPos blockingBoatPos rot shadowLength =
     (\<not> singleBoatMode
      \<and> posY boatPos > posY blockingBoatPos
      \<and> sqrt ((posX boatPos - posX blockingBoatPos)\<^sup>2
             + (posY boatPos - posY blockingBoatPos)\<^sup>2) \<le> shadowLength
      \<and> \<bar>posX boatPos - posX blockingBoatPos\<bar>
          < (sqrt ((posX boatPos - posX blockingBoatPos)\<^sup>2
                 + (posY boatPos - posY blockingBoatPos)\<^sup>2) / shadowLength)
            * (shadowLength * 0.5))
   \<and> isInTurbulenceZone singleBoatMode boatPos blockingBoatPos rot shadowLength
       = isInTurbulenceZone singleBoatMode boatPos blockingBoatPos rot' shadowLength
   \<and> isInTurbulenceZone True boatPos blockingBoatPos rot shadowLength = False"
  by (auto simp: isInTurbulenceZone_def Let_def)

subsection \<open>Boat identifiers\<close>

lemma boatId_createInitialBoat:
  "boatId (createInitialBoat u n 0 l) = ''boat-1''"
  "boatId (createInitialBoat u n 1 l) = ''boat-2''"
  "boatId (createInitialBoat u n (Suc 0) l) = ''boat-2''"
  "boatId (createInitialBoat u n 2 l) = ''boat-3''"
  "boatId (createInitialBoat u n 3 l) = ''boat-4''"
  by (simp_all add: createInitialBoat_def showNat.simps)

lemma boatNumberOf_ids:
  "boatNumberOf ''boat-1'' = Some 1"
  "boatNumberOf ''boat-2'' = Some 2"
  "boatNumberOf ''boat-3'' = Some 3"
  "boatNumberOf ''boat-4'' = Some 4"
  by (simp_all add: boatNumberOf_def parseInt_def nthOpt_def isWhiteSpace_def isDigit_def
        digitsValue_def Let_def)

subsection \<open>The result list\<close>

lemma results_setStageFinished [simp]: "results (setStageFinished bid s) = results s"
  by (simp add: setStageFinished_def)

lemma phase_setStageFinished [simp]: "phase (setStageFinished bid s) = phase s"
  by (simp add: setStageFinished_def)

lemma boats_setStageFinished [simp]: "boats (setStageFinished bid s) = boats s"
  by (simp add: setStageFinished_def)

lemma length_assignPositions [simp]: "length (assignPositions rs) = length rs"
  by (simp add: assignPositions_def enumerate_eq_zip)

lemma finishTime_assignPositions [simp]:
  "map finishTime (assignPositions rs) = map finishTime rs"
proof -
  have "map finishTime (assignPositions rs) = map (finishTime \<circ> snd) (zip [0..<length rs] rs)"
    by (simp add: assignPositions_def enumerate_eq_zip case_prod_beta comp_def)
  also have "\<dots> = map finishTime (map snd (zip [0..<length rs] rs))"
    by (simp only: map_map)
  also have "\<dots> = map finishTime rs"
    by simp
  finally show ?thesis .
qed

lemma resultPosition_assignPositions [simp]:
  "map resultPosition (assignPositions rs) = [1..<Suc (length rs)]"
proof -
  have "map resultPosition (assignPositions rs) = map (Suc \<circ> fst) (zip [0..<length rs] rs)"
    by (simp add: assignPositions_def enumerate_eq_zip case_prod_beta comp_def)
  also have "\<dots> = map Suc (map fst (zip [0..<length rs] rs))"
    by (simp only: map_map)
  also have "\<dots> = map Suc [0..<length rs]"
    by simp
  also have "\<dots> = [1..<Suc (length rs)]"
    by (simp add: map_Suc_upt)
  finally show ?thesis .
qed


lemma results_finishRace:
  "results (finishRace bid time s) =
     (if recordsResult bid s
      then assignPositions (sort_key finishTime (results s @
             [\<lparr> resultUserId = userId (the (find (\<lambda>b. boatId b = bid) (boats s))),
                resultUsername = username (the (find (\<lambda>b. boatId b = bid) (boats s))),
                finishTime = time, resultPosition = 0, boatNumber = boatNumberOf bid \<rparr>]))
      else results s)"
  by (simp add: finishRace_def recordsResult_def Let_def split: option.splits)

lemma recordsResult_iff: "recordsResult bid s \<longleftrightarrow> results (finishRace bid time s) \<noteq> results s"
proof -
  have "length (results (finishRace bid time s)) = Suc (length (results s))" if "recordsResult bid s"
    using that by (simp add: results_finishRace)
  then have "results (finishRace bid time s) \<noteq> results s" if "recordsResult bid s"
    using that by (metis n_not_Suc_n)
  moreover have "results (finishRace bid time s) = results s" if "\<not> recordsResult bid s"
    using that by (simp add: results_finishRace)
  ultimately show ?thesis by blast
qed








subsection \<open>The race phase\<close>

lemma resultKey_assignPositions [simp]:
  "map resultKey (assignPositions rs) = map resultKey rs"
proof -
  have "map resultKey (assignPositions rs) = map (resultKey \<circ> snd) (zip [0..<length rs] rs)"
    by (simp add: assignPositions_def enumerate_eq_zip case_prod_beta comp_def resultKey_def)
  also have "\<dots> = map resultKey (map snd (zip [0..<length rs] rs))"
    by (simp only: map_map)
  also have "\<dots> = map resultKey rs"
    by simp
  finally show ?thesis .
qed

lemma distinct_map_sort_key:
  "distinct (map k (sort_key f xs)) = distinct (map k xs)"
  by (simp add: distinct_map)

lemma boatKey_createInitialBoat:
  "boatKey (createInitialBoat a nm 0 l) = (a, Some 1)"
  "boatKey (createInitialBoat a nm (Suc 0) l) = (a, Some 2)"
  "boatKey (createInitialBoat a nm 2 l) = (a, Some 3)"
  "boatKey (createInitialBoat a nm 3 l) = (a, Some 4)"
  using boatId_createInitialBoat [of a nm l] boatNumberOf_ids
  by (simp_all add: boatKey_def) (simp_all add: createInitialBoat_def)

lemma storeInv_initializeRace: "storeInv (initializeRace u n s)"
proof -
  define a where "a = (case u of None \<Rightarrow> 1 | Some v \<Rightarrow> if authId v \<noteq> 0 then authId v else (1::int))"
  define b1 where "b1 = customName (case u of None \<Rightarrow> None | Some v \<Rightarrow> boat1Name v)
      (case u of None \<Rightarrow> ''Player 1''
       | Some v \<Rightarrow> if authUsername v \<noteq> [] then authUsername v else ''Player 1'')"
  define b2 where "b2 = customName (case u of None \<Rightarrow> None | Some v \<Rightarrow> boat2Name v) ''Boat 2''"
  define b3 where "b3 = customName (case u of None \<Rightarrow> None | Some v \<Rightarrow> boat3Name v) ''Boat 3''"
  define b4 where "b4 = customName (case u of None \<Rightarrow> None | Some v \<Rightarrow> boat4Name v) ''Boat 4''"
  have bs: "boats (initializeRace u n s) =
      [createInitialBoat a b1 0 True]
        @ (if n > 1 then [createInitialBoat a b2 (Suc 0) False]
             @ (if n > 2 then [createInitialBoat a b3 2 False]
                  @ (if n > 3 then [createInitialBoat a b4 3 False] else []) else []) else [])"
    by (simp add: initializeRace_def Let_def a_def b1_def b2_def b3_def b4_def)
  have "map boatKey (boats (initializeRace u n s)) =
      [(a, Some 1)]
        @ (if n > 1 then [(a, Some 2)]
             @ (if n > 2 then [(a, Some 3)]
                  @ (if n > 3 then [(a, Some 4)] else []) else []) else [])"
    unfolding bs by (simp add: boatKey_createInitialBoat)
  then have "distinct (map boatKey (boats (initializeRace u n s)))"
    and "\<forall>k \<in> set (map boatKey (boats (initializeRace u n s))). snd k \<noteq> None"
    by (simp_all split: if_splits)
  moreover have "results (initializeRace u n s) = []" "phase (initializeRace u n s) = PreStart"
    by (simp_all add: initializeRace_def Let_def)
  ultimately show ?thesis
    by (simp add: storeInv_def boatKey_def)
qed

lemma find_boatId: "find (\<lambda>b. boatId b = bid) bs = Some b \<Longrightarrow> b \<in> set bs \<and> boatId b = bid"
  by (induction bs) (auto split: if_splits)

lemma storeInv_setStageFinished [simp]: "storeInv (setStageFinished bid s) = storeInv s"
  by (simp add: storeInv_def)

lemma storeInv_finishRace:
  assumes "storeInv s"
  shows "storeInv (finishRace bid time s)"
proof (cases "recordsResult bid s")
  case False
  then have "finishRace bid time s = s \<or> finishRace bid time s = setStageFinished bid s"
    by (auto simp: finishRace_def recordsResult_def Let_def split: option.splits)
  then show ?thesis
    using assms by auto
next
  case True
  then obtain boat where f: "find (\<lambda>b. boatId b = bid) (boats s) = Some boat"
    and nodup: "\<not> list_ex (\<lambda>r. resultUserId r = userId boat
                          \<and> numStrictEq (boatNumber r) (boatNumberOf bid)) (results s)"
    by (auto simp: recordsResult_def split: option.splits)
  from f have bin: "boat \<in> set (boats s)" and bid: "boatId boat = bid"
    using find_boatId by fastforce+
  obtain n where n: "boatNumberOf bid = Some n"
    using assms bin bid by (auto simp: storeInv_def)
  let ?new = "\<lparr> resultUserId = userId boat, resultUsername = username boat,
                 finishTime = time, resultPosition = 0, boatNumber = boatNumberOf bid \<rparr>"
  have res: "results (finishRace bid time s)
               = assignPositions (sort_key finishTime (results s @ [?new]))"
    using True f by (simp add: results_finishRace)
  have key: "resultKey ?new = boatKey boat"
    by (simp add: resultKey_def boatKey_def bid)
  have notin: "boatKey boat \<notin> set (map resultKey (results s))"
  proof
    assume "boatKey boat \<in> set (map resultKey (results s))"
    then obtain r where r: "r \<in> set (results s)" "resultKey r = boatKey boat"
      by auto
    then have "resultUserId r = userId boat \<and> numStrictEq (boatNumber r) (boatNumberOf bid)"
      using n bid by (simp add: resultKey_def boatKey_def numStrictEq_def)
    with r(1) nodup show False
      by (auto simp: list_ex_iff)
  qed
  have d: "distinct (map resultKey (results (finishRace bid time s)))"
    using assms notin by (simp add: res distinct_map_sort_key key storeInv_def)
  have sub: "set (map resultKey (results (finishRace bid time s))) \<subseteq> set (map boatKey (boats s))"
  proof -
    have "set (map resultKey (results (finishRace bid time s)))
            = set (map resultKey (sort_key finishTime (results s @ [?new])))"
      by (simp only: res resultKey_assignPositions)
    also have "\<dots> = insert (boatKey boat) (set (map resultKey (results s)))"
      using key by simp
    finally show ?thesis
      using assms bin by (auto simp: storeInv_def)
  qed
  have len: "length (results (finishRace bid time s)) = Suc (length (results s))"
    by (simp add: res)
  have bo: "boats (finishRace bid time s) = boats s"
    using True f by (simp add: finishRace_def recordsResult_def Let_def)
  have ph: "phase (finishRace bid time s) =
              (if length (results s) + 1 \<ge> length (boats s) then PhaseFinished else phase s)"
    using True f by (simp add: finishRace_def recordsResult_def Let_def)
  show ?thesis
    unfolding storeInv_def bo
    using assms d sub len ph by (auto simp: storeInv_def)
qed

lemma storeInv_applyEvent: "storeInv s \<Longrightarrow> storeInv (applyEvent e s)"
proof (cases e)
  case (EvFinishRace bid time)
  assume "storeInv s"
  then show ?thesis
    using EvFinishRace by (simp add: storeInv_finishRace)
next
  case (EvInitializeRace u n)
  then show ?thesis
    by (simp add: storeInv_initializeRace)
next
  case (EvSetStage k st)
  assume "storeInv s"
  then show ?thesis
    using EvSetStage by (simp add: storeInv_def setStage_def)
qed (simp_all add: storeInv_def startCountdown_def startRace_def resetRace_def)

lemma storeInv_run: "storeInv s \<Longrightarrow> storeInv (run es s)"
  unfolding run_def by (induction es arbitrary: s) (simp_all add: storeInv_applyEvent)

lemma storeInv_initial: "storeInv initialRaceState"
  by (simp add: storeInv_def initialRaceState_def)

lemma storeInv_all_finished:
  assumes "storeInv s" and "phase s = PhaseFinished" and "b \<in> set (boats s)"
  shows "hasResult b s"
proof -
  let ?R = "set (map resultKey (results s))" and ?B = "set (map boatKey (boats s))"
  have "card ?R = length (results s)"
    using assms(1) by (metis storeInv_def distinct_card length_map)
  moreover have "card ?B = length (boats s)"
    using assms(1) by (metis storeInv_def distinct_card length_map)
  moreover have "length (boats s) \<le> length (results s)"
    using assms(1,2) by (simp add: storeInv_def)
  moreover have "?R \<subseteq> ?B"
    using assms(1) by (simp add: storeInv_def)
  ultimately have "?R = ?B"
    by (intro card_seteq) simp_all
  then have "boatKey b \<in> ?R"
    using assms(3) by auto
  then obtain r where r: "r \<in> set (results s)" "resultKey r = boatKey b"
    by auto
  obtain n where "boatNumberOf (boatId b) = Some n"
    using assms(1,3) by (auto simp: storeInv_def)
  then have "resultUserId r = userId b \<and> numStrictEq (boatNumber r) (boatNumberOf (boatId b))"
    using r(2) by (simp add: resultKey_def boatKey_def numStrictEq_def)
  then show ?thesis
    using r(1) by (auto simp: hasResult_def list_ex_iff)
qed

lemma phase_finishRace:
  "phase (finishRace bid time s) =
     (if results (finishRace bid time s) \<noteq> results s
         \<and> length (boats s) \<le> length (results (finishRace bid time s))
      then PhaseFinished else phase s)"
proof (cases "recordsResult bid s")
  case False
  then have "finishRace bid time s = s \<or> finishRace bid time s = setStageFinished bid s"
    by (auto simp: finishRace_def recordsResult_def Let_def split: option.splits)
  moreover have "results (finishRace bid time s) = results s"
    using False recordsResult_iff by blast
  ultimately show ?thesis by auto
next
  case True
  then obtain boat where f: "find (\<lambda>b. boatId b = bid) (boats s) = Some boat"
    by (auto simp: recordsResult_def split: option.splits)
  have "length (results (finishRace bid time s)) = Suc (length (results s))"
    using True by (simp add: results_finishRace)
  moreover have "results (finishRace bid time s) \<noteq> results s"
    using True recordsResult_iff by blast
  moreover have "phase (finishRace bid time s) =
              (if length (results s) + 1 \<ge> length (boats s) then PhaseFinished else phase s)"
    using True f by (simp add: finishRace_def recordsResult_def Let_def)
  ultimately show ?thesis by simp
qed


text \<open>
  C7.  \<open>finishRace\<close> sets the phase to finished exactly when the call records a result
  and the number of results, this one included, reaches the number of boats; otherwise
  the phase is unchanged.  With two boats and no result yet the phase stays racing after
  one call, and in every store reached from the initial one the phase is finished only
  when each boat of the race holds a result.
\<close>

theorem finishRace_phase:
  "phase (finishRace bid time s) =
     (if results (finishRace bid time s) \<noteq> results s
         \<and> length (boats s) \<le> length (results (finishRace bid time s))
      then PhaseFinished else phase s)
   \<and> (length (boats s) = 2 \<and> results s = [] \<and> phase s = Racing
        \<longrightarrow> phase (finishRace bid time s) = Racing)
   \<and> (phase (run es initialRaceState) = PhaseFinished
        \<longrightarrow> (\<forall>b \<in> set (boats (run es initialRaceState)).
               hasResult b (run es initialRaceState)))"
proof -
  have one: "phase (finishRace bid time s) = Racing"
    if "length (boats s) = 2" "results s = []" "phase s = Racing"
  proof -
    have "length (results (finishRace bid time s)) \<le> 1"
      using that(2) by (simp add: results_finishRace)
    then show ?thesis
      using that(1,3) by (simp add: phase_finishRace)
  qed
  have "storeInv (run es initialRaceState)"
    by (rule storeInv_run) (rule storeInv_initial)
  then show ?thesis
    using one phase_finishRace [of bid time s] storeInv_all_finished by blast
qed

theorem finishRace_phase_witness:
  "length (boats (setStage 1 FinishLeg (startRace 0 (initializeRace None 2 initialRaceState)))) = 2
   \<and> results (setStage 1 FinishLeg (startRace 0 (initializeRace None 2 initialRaceState))) = []
   \<and> phase (setStage 1 FinishLeg (startRace 0 (initializeRace None 2 initialRaceState))) = Racing
   \<and> phase (finishRace ''boat-1'' 5000
        (setStage 1 FinishLeg (startRace 0 (initializeRace None 2 initialRaceState)))) = Racing
   \<and> phase (run [EvInitializeRace None 1, EvStartRace 0, EvSetStage 1 FinishLeg,
                  EvFinishRace ''boat-1'' 5000] initialRaceState) = PhaseFinished
   \<and> boats (run [EvInitializeRace None 1, EvStartRace 0, EvSetStage 1 FinishLeg,
                  EvFinishRace ''boat-1'' 5000] initialRaceState)
       = [createInitialBoat 1 ''Player 1'' 0 True]
   \<and> hasResult (createInitialBoat 1 ''Player 1'' 0 True)
         (run [EvInitializeRace None 1, EvStartRace 0, EvSetStage 1 FinishLeg,
               EvFinishRace ''boat-1'' 5000] initialRaceState)"
  using finishRace_phase [of "''boat-1''" 5000
      "setStage 1 FinishLeg (startRace 0 (initializeRace None 2 initialRaceState))"
      "[EvInitializeRace None 1, EvStartRace 0, EvSetStage 1 FinishLeg,
        EvFinishRace ''boat-1'' 5000]"]
  by (simp add: run_def finishRace_def setStage_def startRace_def initializeRace_def
        initialRaceState_def boatId_createInitialBoat boatNumberOf_ids Let_def
        hasCompletedAllStages_def setStageFinished_def customName_def)

subsection \<open>Finish gating\<close>

lemma stageOfBoat_setStageFinished:
  "bid \<in> {''boat-1'', ''boat-2'', ''boat-3'', ''boat-4''}
     \<Longrightarrow> stageOfBoat bid (setStageFinished bid s) = Finished"
  by (auto simp: stageOfBoat_def setStageFinished_def)

lemma hasCompletedAllStages_stageOfBoat:
  "bid \<in> {''boat-1'', ''boat-2'', ''boat-3'', ''boat-4''}
     \<Longrightarrow> hasCompletedAllStages bid s
           \<longleftrightarrow> stageOfBoat bid s = FinishLeg \<or> stageOfBoat bid s = Finished"
  by (auto simp: stageOfBoat_def hasCompletedAllStages_def)

text \<open>
  C1 (as amended).  For a known boat with one of the ids \<open>boat-1\<close> .. \<open>boat-4\<close>: if the
  boat holds no result yet and its stage is neither Finish Leg nor Finished, the call sets
  its stage to Finished and leaves results and phase unchanged; if the boat already holds a
  result the call changes nothing at all; and a result is appended only when the stage was
  Finish Leg or Finished at the time of the call.
\<close>

theorem finishRace_gate:
  assumes "find (\<lambda>b. boatId b = bid) (boats s) = Some boat"
    and "bid \<in> {''boat-1'', ''boat-2'', ''boat-3'', ''boat-4''}"
  shows "(\<not> hasResult boat s \<and> stageOfBoat bid s \<noteq> FinishLeg \<and> stageOfBoat bid s \<noteq> Finished
            \<longrightarrow> stageOfBoat bid (finishRace bid time s) = Finished
                \<and> results (finishRace bid time s) = results s
                \<and> phase (finishRace bid time s) = phase s)
         \<and> (hasResult boat s \<longrightarrow> finishRace bid time s = s)
         \<and> (results (finishRace bid time s) \<noteq> results s
            \<longrightarrow> stageOfBoat bid s = FinishLeg \<or> stageOfBoat bid s = Finished)"
proof -
  have bid: "boatId boat = bid"
    using assms(1) find_boatId by fastforce
  have dup: "finishRace bid time s = s" if "hasResult boat s"
    using that assms(1) by (simp add: finishRace_def hasResult_def bid Let_def)
  have gate: "finishRace bid time s = setStageFinished bid s"
    if "\<not> hasResult boat s" "\<not> hasCompletedAllStages bid s"
    using that assms(1) by (simp add: finishRace_def hasResult_def bid Let_def)
  have rec: "hasCompletedAllStages bid s" if "results (finishRace bid time s) \<noteq> results s"
    using that recordsResult_iff [of bid s time] assms(1) by (simp add: recordsResult_def)
  show ?thesis
    using dup gate rec assms(2)
      hasCompletedAllStages_stageOfBoat [OF assms(2), of s]
      stageOfBoat_setStageFinished [OF assms(2), of s]
    by auto
qed


theorem finishRace_gate_witness:
  "find (\<lambda>b. boatId b = ''boat-1'') (boats (startRace 0 (initializeRace None 2 initialRaceState)))
     = Some (createInitialBoat 1 ''Player 1'' 0 True)
   \<and> ''boat-1'' \<in> {''boat-1'', ''boat-2'', ''boat-3'', ''boat-4''}
   \<and> \<not> hasResult (createInitialBoat 1 ''Player 1'' 0 True)
          (startRace 0 (initializeRace None 2 initialRaceState))
   \<and> stageOfBoat ''boat-1'' (startRace 0 (initializeRace None 2 initialRaceState)) = NotStarted
   \<and> stageOfBoat ''boat-1''
        (finishRace ''boat-1'' 5000 (startRace 0 (initializeRace None 2 initialRaceState)))
       = Finished
   \<and> results (finishRace ''boat-1'' 5000 (startRace 0 (initializeRace None 2 initialRaceState)))
       = []"
  using finishRace_gate [of "''boat-1''" "startRace 0 (initializeRace None 2 initialRaceState)"
      "createInitialBoat 1 ''Player 1'' 0 True" 5000]
  by (simp add: startRace_def initializeRace_def initialRaceState_def boatId_createInitialBoat
        Let_def customName_def hasResult_def stageOfBoat_def)

text \<open>
  Without the condition on the result the statement fails: for a boat that already holds
  a result the call returns before any stage is written.
\<close>

theorem finishRace_gate_counterexample:
  "map boatId (boats duplicateFinishState) = [''boat-1'', ''boat-2'']
   \<and> hasResult (hd (boats duplicateFinishState)) duplicateFinishState
   \<and> stageOfBoat ''boat-1'' duplicateFinishState = StartLeg
   \<and> stageOfBoat ''boat-1'' (finishRace ''boat-1'' 6000 duplicateFinishState) = StartLeg
   \<and> stageOfBoat ''boat-1'' (finishRace ''boat-1'' 6000 duplicateFinishState) \<noteq> Finished"
  by (simp add: duplicateFinishState_def initStagesEffect_def run_def finishRace_def setStage_def
        startRace_def initializeRace_def initialRaceState_def boatId_createInitialBoat
        boatNumberOf_ids Let_def hasCompletedAllStages_def setStageFinished_def customName_def
        assignPositions_def stageOfBoat_def numStrictEq_def hasResult_def)

text \<open>
  The stage initialisation is not monotone: it puts a finished boat back on the start leg
  when another active boat has not started.
\<close>

lemma initStagesEffect_lowers_stage:
  "boat1Stage (initStagesEffect Racing 3
      (initialRaceState\<lparr> phase := Racing, boat1Stage := Finished, boat2Stage := UpwindLeg \<rparr>))
     = StartLeg"
  by (simp add: initStagesEffect_def initialRaceState_def setStage_def)

subsection \<open>Stage monotonicity\<close>


lemma stagesLe_refl [simp]: "stagesLe s s"
  by (simp add: stagesLe_def)


lemma stageIndex_le_6 [simp]: "stageIndex st \<le> 6"
  by (cases st) simp_all









lemma setFinishedRef_simps [simp]:
  "race (setFinishedRef k sess) = race sess"
  "renderedBoat3Stage (setFinishedRef k sess) = renderedBoat3Stage sess"
  "renderedBoat4Stage (setFinishedRef k sess) = renderedBoat4Stage sess"
  by (simp_all add: setFinishedRef_def)

lemma race_setFinishedRef_update [simp]:
  "race ((setFinishedRef k sess)\<lparr> race := r \<rparr>) = r"
  by simp


lemma boatProgression_rendered [simp]:
  "renderedBoat3Stage (boatProgression k st b ft inp sess) = renderedBoat3Stage sess"
  "renderedBoat4Stage (boatProgression k st b ft inp sess) = renderedBoat4Stage sess"
  by (simp_all add: boatProgression_def Let_def split: option.splits)







lemma guarded_progression_rendered [simp]:
  "renderedBoat3Stage (if c then boatProgression k st b ft inp sess else sess)
     = renderedBoat3Stage sess"
  "renderedBoat4Stage (if c then boatProgression k st b ft inp sess else sess)
     = renderedBoat4Stage sess"
  by simp_all











subsection \<open>Wind efficiency in the no-go zone and in a wind shadow\<close>

lemma applyWindPuffs_in_irons:
  "relativeAngle < 30 \<Longrightarrow> applyWindPuffs relativeAngle b puffs e = e"
  by (induction puffs) simp_all

lemma shadowedBoat1_shadow:
  "boat1InWindShadow False 2 10 shadowedBoat1 shadowingBoat2 b3 b4"
  by (simp add: boat1InWindShadow_def isInTurbulenceZone_def posOf_def shadowedBoat1_def
        shadowingBoat2_def Let_def)

text \<open>
  Without a wind shadow a boat in irons has maximum speed 0, inside a puff or not: the band
  efficiency is 0 and the loop over the puffs adds no boost below 30 degrees.
\<close>

lemma no_go_zone_unshadowed:
  "relativeAngleOf windDirection (bsRotation b) < 30 \<Longrightarrow>
     maxSpeedOf windDirection b False windPuffs = 0"
  by (simp add: windEfficiencyOf_def maxSpeedOf_def Let_def applyWindPuffs_in_irons
        bandEfficiency_def)

text \<open>
  C3.  The no-go zone gives no forward speed regardless of puffs.  The code breaks this for
  a boat in a wind shadow: here boat 1 heads straight into the wind inside a puff, in the
  shadow of boat 2, and its maximum speed (and its speed after one second) is 5.
\<close>

theorem no_go_zone_shadowed_speed:
  "relativeAngleOf 0 (bsRotation shadowedBoat1) < 30
   \<and> maxSpeedOf 0 shadowedBoat1
        (boat1InWindShadow False 2 10 shadowedBoat1 shadowingBoat2 shadowingBoat2 shadowingBoat2)
        [examplePuff] = 5
   \<and> updatedSpeed False 1 0 shadowedBoat1
        (boat1InWindShadow False 2 10 shadowedBoat1 shadowingBoat2 shadowingBoat2 shadowingBoat2)
        [examplePuff] 0 = 5"
  by (simp add: shadowedBoat1_shadow updatedSpeed_def maxSpeedOf_def windEfficiencyOf_def
        Let_def applyWindPuffs_in_irons bandEfficiency_def)
     (simp add: relativeAngleOf_def shadowedBoat1_def)


text \<open>
  C4.  In a wind shadow the efficiency is \<open>max(0.1, efficiency - 0.2)\<close> before the puffs are
  applied; for a boat in irons the band efficiency is 0, so the efficiency is 0.1 and the
  maximum speed is 50 * 0.1 = 5, which is positive.
\<close>

theorem shadow_penalty:
  "windEfficiencyOf windDirection b True windPuffs
     = applyWindPuffs (relativeAngleOf windDirection (bsRotation b)) b windPuffs
         (max 0.1 (bandEfficiency (relativeAngleOf windDirection (bsRotation b)) - 0.2))
   \<and> (relativeAngleOf windDirection (bsRotation b) < 30 \<longrightarrow>
        bandEfficiency (relativeAngleOf windDirection (bsRotation b)) = 0
        \<and> windEfficiencyOf windDirection b True windPuffs = 0.1
        \<and> maxSpeedOf windDirection b True windPuffs = 5
        \<and> maxSpeedOf windDirection b True windPuffs > 0)"
  by (simp add: windEfficiencyOf_def maxSpeedOf_def Let_def applyWindPuffs_in_irons
        bandEfficiency_def)

theorem shadow_penalty_witness:
  "boat1InWindShadow False 2 10 shadowedBoat1 shadowingBoat2 shadowingBoat2 shadowingBoat2
   \<and> relativeAngleOf 0 (bsRotation shadowedBoat1) < 30
   \<and> isInsidePuff shadowedBoat1 examplePuff
   \<and> maxSpeedOf 0 shadowedBoat1 True [examplePuff] = 5"
proof -
  have a: "boat1InWindShadow False 2 10 shadowedBoat1 shadowingBoat2 shadowingBoat2 shadowingBoat2"
    by (rule shadowedBoat1_shadow)
  have b: "relativeAngleOf 0 (bsRotation shadowedBoat1) < 30"
    by (simp add: relativeAngleOf_def shadowedBoat1_def)
  have c: "isInsidePuff shadowedBoat1 examplePuff"
    by (simp add: isInsidePuff_def shadowedBoat1_def examplePuff_def)
  have d: "maxSpeedOf 0 shadowedBoat1 True [examplePuff] = 5"
    using shadow_penalty [of 0 shadowedBoat1 "[examplePuff]"] b by blast
  show ?thesis
    using a b c d by blast
qed


subsection \<open>Wind direction containment\<close>

lemma jsRem_360_nonneg:
  assumes "0 \<le> a"
  shows "0 \<le> jsRem a 360 \<and> jsRem a 360 < 360"
proof -
  define c where "c = real_of_int \<lfloor>a / 360\<rfloor>"
  have "c \<le> a / 360" "a / 360 < c + 1"
    unfolding c_def by linarith+
  then have "360 * c \<le> a" "a < 360 * c + 360"
    by (simp_all add: field_simps)
  moreover have "jsRem a 360 = a - 360 * c"
    using assms by (simp add: jsRem_def c_def)
  ultimately show ?thesis by linarith
qed

lemma jsRem_360_neg:
  assumes "a < 0"
  shows "- 360 < jsRem a 360 \<and> jsRem a 360 \<le> 0"
proof -
  define c where "c = real_of_int \<lceil>a / 360\<rceil>"
  have "a / 360 \<le> c" "c < a / 360 + 1"
    unfolding c_def by linarith+
  then have "a \<le> 360 * c" "360 * c < a + 360"
    by (simp_all add: field_simps)
  moreover have "jsRem a 360 = a - 360 * c"
    using assms by (simp add: jsRem_def c_def)
  ultimately show ?thesis by linarith
qed

lemma shiftedDirection_range: "0 \<le> shiftedDirection d sh \<and> shiftedDirection d sh < 360"
proof (cases "0 \<le> d + sh")
  case True
  then show ?thesis
    using jsRem_360_nonneg [of "d + sh"] by (simp add: shiftedDirection_def Let_def)
next
  case False
  then show ?thesis
    using jsRem_360_neg [of "d + sh"] by (auto simp: shiftedDirection_def Let_def)
qed

lemma clampDirection_cases:
  "clampDirection windRange nd =
     (if nd = 0 \<or> nd = 360 then 0
      else if 0 < nd \<and> nd \<le> 180 then min nd windRange
      else if 180 < nd \<and> nd < 360 then max nd (360 - windRange)
      else nd)"
  by (auto simp: clampDirection_def)

lemma range_locationSettings:
  "0 < windDirectionRange (locationSettings se) \<and> windDirectionRange (locationSettings se) \<le> 180"
  by (cases se) simp_all

lemma legal_clampDirection:
  assumes "0 \<le> nd" "nd < 360"
  shows "legalDirection se (clampDirection (windDirectionRange (locationSettings se)) nd)"
  using assms range_locationSettings [of se]
  by (auto simp: legalDirection_def clampDirection_def Let_def)

lemma legal_updateWindDirection:
  "legalDirection se (direction (updateWindDirection se r1 r2 st))"
  using shiftedDirection_range [of "direction st" "randomShiftOf se r1 r2"]
  by (simp add: updateWindDirection_def Let_def legal_clampDirection)

lemma legal_updateWindDirections:
  "legalDirection se (direction st) \<Longrightarrow>
     legalDirection se (direction (updateWindDirections se rs st))"
  by (induction rs arbitrary: st) (auto simp: legal_updateWindDirection)

text \<open>
  C8.  At every venue, from a direction inside \<open>[0, range] \<union> [360 - range, 360)\<close> the
  direction stays inside after any number of \<open>updateWindDirection\<close> calls, whatever the
  random values.  The shifted direction is normalised into \<open>[0, 360)\<close>; 0 stays 0 and is
  legal; a value in \<open>(0, 180]\<close> is capped at \<open>range\<close>, a value in \<open>(180, 360)\<close> is raised to
  \<open>360 - range\<close> when below it.
\<close>

theorem wind_direction_contained:
  "(legalDirection se (direction st)
      \<longrightarrow> legalDirection se (direction (updateWindDirections se rs st)))
   \<and> 0 \<le> shiftedDirection (direction st) (randomShiftOf se r1 r2)
   \<and> shiftedDirection (direction st) (randomShiftOf se r1 r2) < 360
   \<and> direction (updateWindDirection se r1 r2 st)
       = (let nd = shiftedDirection (direction st) (randomShiftOf se r1 r2);
              windRange = windDirectionRange (locationSettings se)
          in if nd = 0 then 0
             else if nd \<le> 180 then min nd windRange
             else max nd (360 - windRange))
   \<and> legalDirection se (direction (updateWindDirection se r1 r2 st))
   \<and> legalDirection se 0"
proof -
  let ?nd = "shiftedDirection (direction st) (randomShiftOf se r1 r2)"
  have b: "0 \<le> ?nd \<and> ?nd < 360"
    by (rule shiftedDirection_range)
  have "direction (updateWindDirection se r1 r2 st)
          = clampDirection (windDirectionRange (locationSettings se)) ?nd"
    by (simp add: updateWindDirection_def Let_def)
  also have "\<dots> = (if ?nd = 0 then 0
             else if ?nd \<le> 180 then min ?nd (windDirectionRange (locationSettings se))
             else max ?nd (360 - windDirectionRange (locationSettings se)))"
    using b by (auto simp: clampDirection_cases)
  finally have c: "direction (updateWindDirection se r1 r2 st)
       = (let nd = ?nd; windRange = windDirectionRange (locationSettings se)
          in if nd = 0 then 0 else if nd \<le> 180 then min nd windRange else max nd (360 - windRange))"
    by (simp add: Let_def)
  have z: "legalDirection se 0"
    using range_locationSettings [of se] by (simp add: legalDirection_def Let_def)
  show ?thesis
    using b c z legal_updateWindDirection [of se r1 r2 st] legal_updateWindDirections [of se st rs]
    by blast
qed

theorem wind_direction_contained_witness:
  "legalDirection NewportHarbor (direction initialWindState)
   \<and> direction (updateWindDirections NewportHarbor [(0.9, 0), (0.1, 0), (0.1, 0)] initialWindState)
       = 358
   \<and> legalDirection NewportHarbor 358"
proof -
  have j: "jsRem 2 360 = 2" "jsRem 0 360 = 0" "jsRem (- 2) 360 = - 2"
    by (simp_all add: jsRem_def ceiling_eq_iff)
  have a: "legalDirection NewportHarbor (direction initialWindState)"
    by (simp add: legalDirection_def initialWindState_def)
  have b: "direction (updateWindDirections NewportHarbor [(0.9, 0), (0.1, 0), (0.1, 0)]
             initialWindState) = 358"
    by (simp add: updateWindDirection_def initialWindState_def randomShiftOf_def
          shiftedDirection_def clampDirection_def Let_def j)
  show ?thesis
    using wind_direction_contained [of NewportHarbor initialWindState
        "[(0.9, 0), (0.1, 0), (0.1, 0)]" 0 0] a b
    by simp
qed


subsection \<open>Boundary constraints\<close>








subsection \<open>Boat-boat collision response\<close>

lemma sqrt_sum_squares_pos_x:
  fixes x y :: real
  assumes "x \<noteq> 0"
  shows "sqrt (1 + (y / x)\<^sup>2) = sqrt (x\<^sup>2 + y\<^sup>2) / \<bar>x\<bar>"
proof -
  have "1 + (y / x)\<^sup>2 = (x\<^sup>2 + y\<^sup>2) / x\<^sup>2"
    using assms by (simp add: field_simps power2_eq_square)
  then show ?thesis
    by (simp add: real_sqrt_divide)
qed

lemma jsAtan2_cos_sin:
  fixes x y :: real
  assumes "x \<noteq> 0 \<or> y \<noteq> 0"
  shows "cos (jsAtan2 y x) = x / sqrt (x\<^sup>2 + y\<^sup>2)"
    and "sin (jsAtan2 y x) = y / sqrt (x\<^sup>2 + y\<^sup>2)"
proof -
  have pos: "sqrt (x\<^sup>2 + y\<^sup>2) > 0"
    using assms by (simp add: sum_power2_gt_zero_iff)
  define s where "s = sqrt (x\<^sup>2 + y\<^sup>2)"
  have spos: "0 < s"
    using pos by (simp add: s_def)
  have neg: "cos (arctan (y / x)) = - x / s \<and> sin (arctan (y / x)) = - y / s" if "x < 0"
  proof -
    have r: "sqrt (1 + (y / x)\<^sup>2) = s / (- x)"
      using that sqrt_sum_squares_pos_x [of x y] by (simp add: s_def)
    have "cos (arctan (y / x)) = 1 / (s / (- x))"
      by (simp only: cos_arctan r)
    moreover have "sin (arctan (y / x)) = (y / x) / (s / (- x))"
      by (simp only: sin_arctan r)
    ultimately show ?thesis
      using that spos by (simp add: field_simps)
  qed
  have posx: "cos (arctan (y / x)) = x / s \<and> sin (arctan (y / x)) = y / s" if "x > 0"
  proof -
    have r: "sqrt (1 + (y / x)\<^sup>2) = s / x"
      using that sqrt_sum_squares_pos_x [of x y] by (simp add: s_def)
    have "cos (arctan (y / x)) = 1 / (s / x)"
      by (simp only: cos_arctan r)
    moreover have "sin (arctan (y / x)) = (y / x) / (s / x)"
      by (simp only: sin_arctan r)
    ultimately show ?thesis
      using that spos by (simp add: field_simps)
  qed
  consider "x > 0" | "x < 0" "y \<ge> 0" | "x < 0" "y < 0" | "x = 0" "y > 0" | "x = 0" "y < 0"
    using assms by linarith
  then have "cos (jsAtan2 y x) = x / s \<and> sin (jsAtan2 y x) = y / s"
  proof cases
    case 1
    then show ?thesis
      using posx by (simp add: jsAtan2_def)
  next
    case 2
    then show ?thesis
      using neg by (simp add: jsAtan2_def)
  next
    case 3
    then show ?thesis
      using neg by (simp add: jsAtan2_def cos_diff sin_diff)
  next
    case 4
    then show ?thesis
      by (simp add: jsAtan2_def s_def)
  next
    case 5
    then show ?thesis
      by (simp add: jsAtan2_def s_def)
  qed
  then show "cos (jsAtan2 y x) = x / sqrt (x\<^sup>2 + y\<^sup>2)"
    and "sin (jsAtan2 y x) = y / sqrt (x\<^sup>2 + y\<^sup>2)"
    by (simp_all add: s_def)
qed

lemma jsAtan2_projection:
  fixes x y :: real
  shows "cos (jsAtan2 y x) * x + sin (jsAtan2 y x) * y = sqrt (x\<^sup>2 + y\<^sup>2)"
proof (cases "x = 0 \<and> y = 0")
  case True
  then show ?thesis by (simp add: jsAtan2_def)
next
  case False
  then have nz: "x \<noteq> 0 \<or> y \<noteq> 0" by blast
  have pos: "sqrt (x\<^sup>2 + y\<^sup>2) > 0"
    using nz by (simp add: sum_power2_gt_zero_iff)
  have "cos (jsAtan2 y x) * x + sin (jsAtan2 y x) * y
          = (x\<^sup>2 + y\<^sup>2) / sqrt (x\<^sup>2 + y\<^sup>2)"
    by (simp add: jsAtan2_cos_sin [OF nz] power2_eq_square add_divide_distrib)
  also have "\<dots> = sqrt (x\<^sup>2 + y\<^sup>2)"
    using pos by (metis real_div_sqrt less_eq_real_def sum_power2_ge_zero)
  finally show ?thesis .
qed

lemma push_expand:
  fixes dx dy c s p :: real
  shows "(dx + 2 * (c * p))\<^sup>2 + (dy + 2 * (s * p))\<^sup>2
          = (dx\<^sup>2 + dy\<^sup>2) + 4 * p * (c * dx + s * dy) + 4 * p\<^sup>2 * (c\<^sup>2 + s\<^sup>2)"
  by (simp add: power2_eq_square algebra_simps)

text \<open>After the push the centres are \<open>distance + 2 * pushDistance\<close> apart.\<close>

lemma pushed_distance:
  fixes x1 y1 x2 y2 p :: real
  assumes "0 \<le> p"
  defines "a \<equiv> jsAtan2 (y2 - y1) (x2 - x1)"
  shows "distanceBetween (x1 - cos a * p) (y1 - sin a * p) (x2 + cos a * p) (y2 + sin a * p)
           = distanceBetween x1 y1 x2 y2 + 2 * p"
proof -
  define dx dy d where "dx = x2 - x1" and "dy = y2 - y1" and "d = sqrt (dx\<^sup>2 + dy\<^sup>2)"
  have d0: "0 \<le> d" by (simp add: d_def)
  have dd: "d\<^sup>2 = dx\<^sup>2 + dy\<^sup>2" by (simp add: d_def)
  have proj: "cos a * dx + sin a * dy = d"
    unfolding a_def dx_def dy_def d_def by (rule jsAtan2_projection)
  have one: "(cos a)\<^sup>2 + (sin a)\<^sup>2 = 1"
    by (simp add: add.commute)
  have "(dx + 2 * (cos a * p))\<^sup>2 + (dy + 2 * (sin a * p))\<^sup>2
          = (dx\<^sup>2 + dy\<^sup>2) + 4 * p * (cos a * dx + sin a * dy) + 4 * p\<^sup>2 * ((cos a)\<^sup>2 + (sin a)\<^sup>2)"
    by (rule push_expand)
  also have "\<dots> = d\<^sup>2 + 4 * p * d + 4 * p\<^sup>2 * 1"
    by (simp only: proj one dd [symmetric])
  also have "\<dots> = (d + 2 * p)\<^sup>2"
    by (simp add: power2_eq_square algebra_simps)
  finally have sq: "(dx + 2 * (cos a * p))\<^sup>2 + (dy + 2 * (sin a * p))\<^sup>2 = (d + 2 * p)\<^sup>2" .
  have "distanceBetween (x1 - cos a * p) (y1 - sin a * p) (x2 + cos a * p) (y2 + sin a * p)
          = sqrt ((dx + 2 * (cos a * p))\<^sup>2 + (dy + 2 * (sin a * p))\<^sup>2)"
    unfolding distanceBetween_def dx_def dy_def
    by (intro arg_cong [where f = sqrt]) (simp add: power2_eq_square algebra_simps)
  also have "\<dots> = d + 2 * p"
    using d0 assms(1) by (simp add: sq)
  also have "d = distanceBetween x1 y1 x2 y2"
    unfolding distanceBetween_def d_def dx_def dy_def
    by (intro arg_cong [where f = sqrt]) (simp add: power2_eq_square algebra_simps)
  finally show ?thesis .
qed

lemma pushDistanceOf_bounds:
  assumes "d < r * 2" "0 \<le> d"
  shows "0 \<le> pushDistanceOf r d" and "r * 2 \<le> d + 2 * pushDistanceOf r d"
proof -
  have "(r * 2 - d) * 0.75 \<le> pushDistanceOf r d"
    by (simp add: pushDistanceOf_def)
  then have a: "6 * r - 3 * d \<le> 4 * pushDistanceOf r d"
    by (simp add: algebra_simps)
  show "0 \<le> pushDistanceOf r d"
    using a assms by linarith
  show "r * 2 \<le> d + 2 * pushDistanceOf r d"
    using a assms by linarith
qed

lemma distanceBetween_nonneg [simp]: "0 \<le> distanceBetween x1 y1 x2 y2"
  by (simp add: distanceBetween_def)

lemma adjusted_setAdjusted_same:
  "bid \<in> {1, 2, 3, 4} \<Longrightarrow>
     adjustedPos bid (setAdjusted bid x y sp vars) = \<lparr> posX = x, posY = y \<rparr>
     \<and> adjustedSpeed bid (setAdjusted bid x y sp vars) = sp"
  by (auto simp: adjustedPos_def adjustedSpeed_def setAdjusted_def)

lemma adjusted_setAdjusted_other:
  "bid \<in> {1, 2, 3, 4} \<Longrightarrow> bid' \<in> {1, 2, 3, 4} \<Longrightarrow> bid \<noteq> bid' \<Longrightarrow>
     adjustedPos bid (setAdjusted bid' x y sp vars) = adjustedPos bid vars
     \<and> adjustedSpeed bid (setAdjusted bid' x y sp vars) = adjustedSpeed bid vars"
  by (auto simp: adjustedPos_def adjustedSpeed_def setAdjusted_def)


lemma collidePair_separation:
  assumes ij: "i < j" "j < length activeBoats"
    and ids: "bcId (activeBoats ! i) \<in> {1, 2, 3, 4}" "bcId (activeBoats ! j) \<in> {1, 2, 3, 4}"
      "bcId (activeBoats ! i) \<noteq> bcId (activeBoats ! j)"
    and overlap: "distanceBetween (bcX (activeBoats ! i)) (bcY (activeBoats ! i))
                    (bcX (activeBoats ! j)) (bcY (activeBoats ! j)) < boatRadius * 2"
  shows "let boat1 = activeBoats ! i;
             boat2 = activeBoats ! j;
             distance = distanceBetween (bcX boat1) (bcY boat1) (bcX boat2) (bcY boat2);
             pushDistance = max ((boatRadius * 2 - distance) * 0.75) (boatRadius * 0.25);
             st = collidePair boatRadius i j (activeBoats, vars);
             p1 = adjustedPos (bcId boat1) (snd st);
             p2 = adjustedPos (bcId boat2) (snd st)
         in distanceBetween (posX p1) (posY p1) (posX p2) (posY p2) = distance + 2 * pushDistance
          \<and> boatRadius * 2 \<le> distanceBetween (posX p1) (posY p1) (posX p2) (posY p2)
          \<and> (0 < distance \<longrightarrow>
                posX p1 = bcX boat1 - (bcX boat2 - bcX boat1) / distance * pushDistance
              \<and> posY p1 = bcY boat1 - (bcY boat2 - bcY boat1) / distance * pushDistance
              \<and> posX p2 = bcX boat2 + (bcX boat2 - bcX boat1) / distance * pushDistance
              \<and> posY p2 = bcY boat2 + (bcY boat2 - bcY boat1) / distance * pushDistance)
          \<and> adjustedSpeed (bcId boat1) (snd st) = bcSpeed boat1 * 0.95
          \<and> adjustedSpeed (bcId boat2) (snd st) = bcSpeed boat2 * 0.95
          \<and> needsAdjustment (fst st ! i) \<and> needsAdjustment (fst st ! j)"
proof -
  define boat1 boat2 where "boat1 = activeBoats ! i" and "boat2 = activeBoats ! j"
  define d where "d = distanceBetween (bcX boat1) (bcY boat1) (bcX boat2) (bcY boat2)"
  define p where "p = pushDistanceOf boatRadius d"
  define a where "a = jsAtan2 (bcY boat2 - bcY boat1) (bcX boat2 - bcX boat1)"
  define st where "st = collidePair boatRadius i j (activeBoats, vars)"
  have d0: "0 \<le> d" by (simp add: d_def)
  have dlt: "d < boatRadius * 2"
    using overlap by (simp add: d_def boat1_def boat2_def)
  have p0: "0 \<le> p" and sep: "boatRadius * 2 \<le> d + 2 * p"
    using pushDistanceOf_bounds [OF dlt d0] by (simp_all add: p_def)
  have st_eq: "st = ((activeBoats[i := boat1\<lparr> needsAdjustment := True \<rparr>])
                        [j := boat2\<lparr> needsAdjustment := True \<rparr>],
                     setAdjusted (bcId boat2) (bcX boat2 + cos a * p) (bcY boat2 + sin a * p)
                       (bcSpeed boat2 * 0.95)
                       (setAdjusted (bcId boat1) (bcX boat1 - cos a * p) (bcY boat1 - sin a * p)
                          (bcSpeed boat1 * 0.95) vars))"
    using dlt
    by (simp add: st_def collidePair_def Let_def boat1_def boat2_def d_def p_def a_def)
  have id1: "bcId boat1 \<in> {1, 2, 3, 4}" and id2: "bcId boat2 \<in> {1, 2, 3, 4}"
    and idne: "bcId boat1 \<noteq> bcId boat2"
    using ids by (simp_all add: boat1_def boat2_def)
  have p2: "adjustedPos (bcId boat2) (snd st)
              = \<lparr> posX = bcX boat2 + cos a * p, posY = bcY boat2 + sin a * p \<rparr>"
    and s2: "adjustedSpeed (bcId boat2) (snd st) = bcSpeed boat2 * 0.95"
    using adjusted_setAdjusted_same [OF id2] by (simp_all add: st_eq)
  have p1: "adjustedPos (bcId boat1) (snd st)
              = \<lparr> posX = bcX boat1 - cos a * p, posY = bcY boat1 - sin a * p \<rparr>"
    and s1: "adjustedSpeed (bcId boat1) (snd st) = bcSpeed boat1 * 0.95"
    using adjusted_setAdjusted_other [OF id1 id2 idne] adjusted_setAdjusted_same [OF id1]
    by (simp_all add: st_eq)
  have dist: "distanceBetween (bcX boat1 - cos a * p) (bcY boat1 - sin a * p)
                (bcX boat2 + cos a * p) (bcY boat2 + sin a * p) = d + 2 * p"
    unfolding a_def d_def by (rule pushed_distance [OF p0])
  have dir: "cos a = (bcX boat2 - bcX boat1) / d \<and> sin a = (bcY boat2 - bcY boat1) / d"
    if "0 < d"
  proof -
    have dd: "d = sqrt ((bcX boat2 - bcX boat1)\<^sup>2 + (bcY boat2 - bcY boat1)\<^sup>2)"
      unfolding d_def distanceBetween_def
      by (intro arg_cong [where f = sqrt]) (simp add: power2_eq_square algebra_simps)
    have "bcX boat2 - bcX boat1 \<noteq> 0 \<or> bcY boat2 - bcY boat1 \<noteq> 0"
      using that dd by auto
    then show ?thesis
      unfolding a_def dd by (simp add: jsAtan2_cos_sin)
  qed
  have flags: "needsAdjustment (fst st ! i) \<and> needsAdjustment (fst st ! j)"
    using ij by (simp add: st_eq nth_list_update)
  have pd: "max ((boatRadius * 2 - d) * 0.75) (boatRadius * 0.25) = p"
    by (simp add: p_def pushDistanceOf_def)
  show ?thesis
    unfolding Let_def
    unfolding boat1_def [symmetric] boat2_def [symmetric] d_def [symmetric]
      st_def [symmetric] pd p1 p2
    using dist sep dir s1 s2 flags by simp
qed

lemma pairIndices_2: "pairIndices (Suc (Suc 0)) = [(0, Suc 0)]"
  by (simp add: pairIndices_def upt_rec)

lemma length_collidePair [simp]: "length (fst (collidePair r i j st)) = length (fst st)"
  by (simp add: collidePair_def Let_def)

lemma boatBoatCollisions_two_boats:
  "boatBoatCollisions 2 r c b1 b2 b3 b4 vars =
     (let st = collidePair r 0 1
                 ([\<lparr> bcId = 1, bcX = posX (newBoat1 c), bcY = posY (newBoat1 c),
                     bcSpeed = bsSpeed b1, needsAdjustment = False \<rparr>,
                   \<lparr> bcId = 2, bcX = posX (newBoat2 c), bcY = posY (newBoat2 c),
                     bcSpeed = bsSpeed b2, needsAdjustment = False \<rparr>], vars)
      in (\<lparr> boat1NeedsAdjustment = needsAdjustment (fst st ! 0),
            boat2NeedsAdjustment = needsAdjustment (fst st ! 1),
            boat3NeedsAdjustment = False, boat4NeedsAdjustment = False \<rparr>, snd st))"
  by (simp add: boatBoatCollisions_def pairIndices_2 Let_def)

text \<open>
  In a two-boat race the section is one execution of the loop body, for boats 1 and 2.
\<close>

lemma two_boat_section_separation:
  assumes "distanceBetween (posX (newBoat1 c)) (posY (newBoat1 c))
             (posX (newBoat2 c)) (posY (newBoat2 c)) < r * 2"
  shows "let res = boatBoatCollisions 2 r c b1 b2 b3 b4 vars
         in boat1NeedsAdjustment (fst res) \<and> boat2NeedsAdjustment (fst res)
          \<and> r * 2 \<le> distanceBetween
                (newBoat1XWithMarks (snd res)) (newBoat1YWithMarks (snd res))
                (newBoat2XWithMarks (snd res)) (newBoat2YWithMarks (snd res))
          \<and> boat1SpeedAdjusted (snd res) = bsSpeed b1 * 0.95
          \<and> boat2SpeedAdjusted (snd res) = bsSpeed b2 * 0.95"
proof -
  let ?bs = "[\<lparr> bcId = 1, bcX = posX (newBoat1 c), bcY = posY (newBoat1 c),
                 bcSpeed = bsSpeed b1, needsAdjustment = False \<rparr>,
               \<lparr> bcId = 2, bcX = posX (newBoat2 c), bcY = posY (newBoat2 c),
                 bcSpeed = bsSpeed b2, needsAdjustment = False \<rparr>]"
  have "let boat1 = ?bs ! 0; boat2 = ?bs ! 1;
            distance = distanceBetween (bcX boat1) (bcY boat1) (bcX boat2) (bcY boat2);
            pushDistance = max ((r * 2 - distance) * 0.75) (r * 0.25);
            st = collidePair r 0 1 (?bs, vars);
            p1 = adjustedPos (bcId boat1) (snd st);
            p2 = adjustedPos (bcId boat2) (snd st)
        in distanceBetween (posX p1) (posY p1) (posX p2) (posY p2) = distance + 2 * pushDistance
         \<and> r * 2 \<le> distanceBetween (posX p1) (posY p1) (posX p2) (posY p2)
         \<and> (0 < distance \<longrightarrow>
               posX p1 = bcX boat1 - (bcX boat2 - bcX boat1) / distance * pushDistance
             \<and> posY p1 = bcY boat1 - (bcY boat2 - bcY boat1) / distance * pushDistance
             \<and> posX p2 = bcX boat2 + (bcX boat2 - bcX boat1) / distance * pushDistance
             \<and> posY p2 = bcY boat2 + (bcY boat2 - bcY boat1) / distance * pushDistance)
         \<and> adjustedSpeed (bcId boat1) (snd st) = bcSpeed boat1 * 0.95
         \<and> adjustedSpeed (bcId boat2) (snd st) = bcSpeed boat2 * 0.95
         \<and> needsAdjustment (fst st ! 0) \<and> needsAdjustment (fst st ! 1)"
    using assms by (intro collidePair_separation) simp_all
  then show ?thesis
    by (simp add: boatBoatCollisions_two_boats Let_def adjustedPos_def adjustedSpeed_def)
qed




end
